theory Spec2Isabelle
  imports Main
begin

section \<open>Data model\<close>

text \<open>
  The two tables of the init migration, \<open>User\<close> and \<open>UserTokens\<close>, as lists of rows in
  insertion order. Numeric columns and JavaScript numbers are \<open>int\<close>; a timestamp is the
  number of milliseconds since the epoch. Field names carry a table prefix because record
  fields share one name space (\<open>u_email\<close> is \<open>User.email\<close>, \<open>t_refreshToken\<close> is
  \<open>UserTokens.refreshToken\<close>).
\<close>

record User =
  u_id :: int
  u_email :: string
  u_password :: string
  u_username :: string
  u_isLocked :: bool
  u_createdAt :: int
  u_updatedAt :: int

record UserTokens =
  t_id :: int
  t_userId :: int
  t_refreshToken :: string
  t_userAgent :: string
  t_ipAddress :: string
  t_deviceInfo :: string
  t_lastUsedAt :: int
  t_expiresAt :: int
  t_createdAt :: int
  t_updatedAt :: int

text \<open>
  The database: both tables and the two \<open>SERIAL\<close> sequences behind the \<open>id\<close> columns.
\<close>

record db =
  users :: "User list"
  userTokens :: "UserTokens list"
  users_seq :: int
  userTokens_seq :: int

text \<open>The claims a token carries (\<open>JwtPayload\<close> without the library's \<open>iat\<close>/\<open>exp\<close>).\<close>

record JwtPayload =
  sub :: int
  username :: string
  email :: string

text \<open>\<open>CurrentUserData\<close>: what the strategy attaches to the request.\<close>

record CurrentUserData =
  cu_id :: int
  cu_username :: string
  cu_email :: string

record RegisteredUser =
  ru_id :: int
  ru_email :: string
  ru_username :: string
  ru_createdAt :: int

record Tokens =
  accessToken :: string
  refreshToken :: string

record 'a Response =
  success :: bool
  message :: string
  data :: 'a

text \<open>
  Everything a call can throw. The three HTTP exceptions are the ones the service raises
  itself; \<open>PrismaError\<close> is a request the store rejects (constraint violation \<open>P2002\<close>,
  \<open>P2003\<close>, or record not found \<open>P2025\<close>), \<open>TypeError\<close> a property read on \<open>null\<close>.
\<close>

datatype exception =
    ConflictException string
  | BadRequestException string
  | UnauthorizedException string
  | PrismaError string
  | TypeError

type_synonym 'a outcome = "(exception + 'a) \<times> db"

text \<open>
  The collaborators the service is constructed with or imports: the password hasher
  (\<open>argon2.hash\<close> draws a random salt, passed in here as its first argument), the token
  codec (\<open>signAsync payload secret expiresIn\<close> and \<open>verifyAsync token secret\<close>, both reading
  the clock, passed in as their last argument) and the configuration lookup.
\<close>

record env =
  argon2_hash :: "string \<Rightarrow> string \<Rightarrow> string"
  argon2_verify :: "string \<Rightarrow> string \<Rightarrow> bool"
  signAsync :: "JwtPayload \<Rightarrow> string \<Rightarrow> string \<Rightarrow> int \<Rightarrow> string"
  verifyAsync :: "string \<Rightarrow> string \<Rightarrow> int \<Rightarrow> JwtPayload option"
  config :: "string \<Rightarrow> string option"

section \<open>The store\<close>

text \<open>\<open>configService.get(key) || fallback\<close>: an unset or empty value gives the fallback.\<close>

definition config_or :: "env \<Rightarrow> string \<Rightarrow> string \<Rightarrow> string" where
  "config_or e key fallback =
     (case config e key of
        None \<Rightarrow> fallback
      | Some v \<Rightarrow> if v = [] then fallback else v)"

definition prisma_user_findUnique_email :: "db \<Rightarrow> string \<Rightarrow> User option" where
  "prisma_user_findUnique_email d e = find (\<lambda>u. u_email u = e) (users d)"

definition prisma_user_findUnique_id :: "db \<Rightarrow> int \<Rightarrow> User option" where
  "prisma_user_findUnique_id d i = find (\<lambda>u. u_id u = i) (users d)"

text \<open>
  \<open>prisma.user.create\<close>. The row takes the next value of the sequence, which stays
  consumed when the insert is rejected; the insert is rejected when the primary key or
  one of the unique indexes \<open>User_email_key\<close>, \<open>User_username_key\<close> is already taken.
  \<open>createdAt\<close> defaults to the current time and \<open>updatedAt\<close> is set by the client.
\<close>

definition prisma_user_create ::
  "db \<Rightarrow> string \<Rightarrow> string \<Rightarrow> string \<Rightarrow> bool \<Rightarrow> int \<Rightarrow> User outcome" where
  "prisma_user_create d em un pw locked now =
     (let row = \<lparr>u_id = users_seq d, u_email = em, u_password = pw, u_username = un,
                 u_isLocked = locked, u_createdAt = now, u_updatedAt = now\<rparr>;
          d1 = d\<lparr>users_seq := users_seq d + 1\<rparr>
      in if u_id row \<in> set (map u_id (users d)) then (Inl (PrismaError ''P2002''), d1)
         else if em \<in> set (map u_email (users d)) then (Inl (PrismaError ''P2002''), d1)
         else if un \<in> set (map u_username (users d)) then (Inl (PrismaError ''P2002''), d1)
         else (Inr row, d1\<lparr>users := users d @ [row]\<rparr>))"

text \<open>\<open>prisma.user.update({where: {id}, data: {password}})\<close>; no such row is \<open>P2025\<close>.\<close>

definition prisma_user_update :: "db \<Rightarrow> int \<Rightarrow> string \<Rightarrow> int \<Rightarrow> unit outcome" where
  "prisma_user_update d i pw now =
     (if i \<in> set (map u_id (users d))
      then (Inr (),
            d\<lparr>users := map (\<lambda>u. if u_id u = i then u\<lparr>u_password := pw, u_updatedAt := now\<rparr>
                                 else u) (users d)\<rparr>)
      else (Inl (PrismaError ''P2025''), d))"

text \<open>
  \<open>prisma.userTokens.findUnique({where: {refreshToken}, include: {user: true}})\<close>: the
  session row together with the user its \<open>userId\<close> points to.
\<close>

definition prisma_userTokens_findUnique :: "db \<Rightarrow> string \<Rightarrow> (UserTokens \<times> User option) option" where
  "prisma_userTokens_findUnique d tok =
     (case find (\<lambda>r. t_refreshToken r = tok) (userTokens d) of
        None \<Rightarrow> None
      | Some r \<Rightarrow> Some (r, prisma_user_findUnique_id d (t_userId r)))"

text \<open>
  \<open>prisma.userTokens.create\<close>: rejected when the primary key or the unique index
  \<open>UserTokens_refreshToken_key\<close> is taken, or when the foreign key \<open>userId\<close> names no
  user. \<open>lastUsedAt\<close> and \<open>createdAt\<close> default to the current time.
\<close>

definition prisma_userTokens_create ::
  "db \<Rightarrow> int \<Rightarrow> string \<Rightarrow> string \<Rightarrow> string \<Rightarrow> string \<Rightarrow> int \<Rightarrow> int \<Rightarrow> UserTokens outcome" where
  "prisma_userTokens_create d uid tok ua ip dev exp now =
     (let row = \<lparr>t_id = userTokens_seq d, t_userId = uid, t_refreshToken = tok,
                 t_userAgent = ua, t_ipAddress = ip, t_deviceInfo = dev, t_lastUsedAt = now,
                 t_expiresAt = exp, t_createdAt = now, t_updatedAt = now\<rparr>;
          d1 = d\<lparr>userTokens_seq := userTokens_seq d + 1\<rparr>
      in if t_id row \<in> set (map t_id (userTokens d)) then (Inl (PrismaError ''P2002''), d1)
         else if tok \<in> set (map t_refreshToken (userTokens d))
           then (Inl (PrismaError ''P2002''), d1)
         else if uid \<notin> set (map u_id (users d)) then (Inl (PrismaError ''P2003''), d1)
         else (Inr row, d1\<lparr>userTokens := userTokens d @ [row]\<rparr>))"

text \<open>\<open>prisma.userTokens.delete({where: {refreshToken}})\<close>; no such row is \<open>P2025\<close>.\<close>

definition prisma_userTokens_delete :: "db \<Rightarrow> string \<Rightarrow> unit outcome" where
  "prisma_userTokens_delete d tok =
     (if tok \<in> set (map t_refreshToken (userTokens d))
      then (Inr (), d\<lparr>userTokens := filter (\<lambda>r. t_refreshToken r \<noteq> tok) (userTokens d)\<rparr>)
      else (Inl (PrismaError ''P2025''), d))"

text \<open>\<open>prisma.userTokens.deleteMany({where})\<close> removes every matching row and never fails.\<close>

definition prisma_userTokens_deleteMany :: "db \<Rightarrow> (UserTokens \<Rightarrow> bool) \<Rightarrow> db" where
  "prisma_userTokens_deleteMany d matches = d\<lparr>userTokens := filter (\<lambda>r. \<not> matches r) (userTokens d)\<rparr>"

text \<open>
  \<open>prisma.userTokens.update({where: {id}, data: {refreshToken, lastUsedAt, expiresAt}})\<close>:
  no such row is \<open>P2025\<close>; a token value held by a different row violates the unique
  index.
\<close>

definition prisma_userTokens_update :: "db \<Rightarrow> int \<Rightarrow> string \<Rightarrow> int \<Rightarrow> int \<Rightarrow> int \<Rightarrow> unit outcome" where
  "prisma_userTokens_update d i tok used exp now =
     (if i \<notin> set (map t_id (userTokens d)) then (Inl (PrismaError ''P2025''), d)
      else if \<exists>r \<in> set (userTokens d). t_id r \<noteq> i \<and> t_refreshToken r = tok
        then (Inl (PrismaError ''P2002''), d)
      else (Inr (),
            d\<lparr>userTokens :=
                 map (\<lambda>r. if t_id r = i
                           then r\<lparr>t_refreshToken := tok, t_lastUsedAt := used,
                                   t_expiresAt := exp, t_updatedAt := now\<rparr>
                           else r) (userTokens d)\<rparr>))"

text \<open>
  What the schema guarantees of every stored state: primary keys and the three unique
  columns hold no duplicates, every session belongs to a stored user, and the sequences
  are ahead of the keys in use.
\<close>

definition db_wf :: "db \<Rightarrow> bool" where
  "db_wf d \<longleftrightarrow>
     distinct (map u_id (users d)) \<and>
     distinct (map u_email (users d)) \<and>
     distinct (map u_username (users d)) \<and>
     distinct (map t_id (userTokens d)) \<and>
     distinct (map t_refreshToken (userTokens d)) \<and>
     set (map t_userId (userTokens d)) \<subseteq> set (map u_id (users d)) \<and>
     (\<forall>i \<in> set (map u_id (users d)). i < users_seq d) \<and>
     (\<forall>i \<in> set (map t_id (userTokens d)). i < userTokens_seq d)"

section \<open>The authentication service\<close>

text \<open>
  Every operation takes the collaborators, the stored state and its arguments, and
  returns what it returns or throws together with the state it leaves behind. A call
  runs at one instant \<open>now\<close>: each clock reading in its body gives that value.
\<close>

text \<open>
  \<open>generateTokens\<close>: one payload signed twice, with the access secret and lifetime and
  with the refresh secret and lifetime, each taken from the configuration or its fallback.
\<close>

definition generateTokens :: "env \<Rightarrow> int \<Rightarrow> string \<Rightarrow> string \<Rightarrow> int \<Rightarrow> Tokens" where
  "generateTokens e userId uname mail now =
     (let payload = \<lparr>sub = userId, username = uname, email = mail\<rparr>;
          jwtSecret = config_or e ''JWT_SECRET'' ''your-secret-jwt-key'';
          jwtRefreshSecret = config_or e ''JWT_REFRESH_SECRET'' ''your-refresh-secret'';
          jwtExpiresIn = config_or e ''JWT_EXPIRES_IN'' ''15m'';
          jwtRefreshExpiresIn = config_or e ''JWT_REFRESH_EXPIRES_IN'' ''7d''
      in \<lparr>accessToken = signAsync e payload jwtSecret jwtExpiresIn now,
          refreshToken = signAsync e payload jwtRefreshSecret jwtRefreshExpiresIn now\<rparr>)"

text \<open>\<open>saveRefreshToken\<close>: a new session row expiring seven days from now.\<close>

definition saveRefreshToken ::
  "db \<Rightarrow> int \<Rightarrow> string \<Rightarrow> string \<Rightarrow> string \<Rightarrow> int \<Rightarrow> UserTokens outcome" where
  "saveRefreshToken d userId tok userAgent ipAddress now =
     (let expiresAt = now + 7 * 24 * 60 * 60 * 1000
      in prisma_userTokens_create d userId tok userAgent ipAddress userAgent expiresAt now)"

text \<open>
  \<open>register\<close> is a \<open>try\<close> block and its \<open>catch\<close>: \<open>register_try\<close> is the block,
  \<open>register_catch\<close> what the handler throws for the error it caught.
\<close>

definition register_try ::
  "env \<Rightarrow> db \<Rightarrow> string \<Rightarrow> string \<Rightarrow> string \<Rightarrow> string \<Rightarrow> int \<Rightarrow> RegisteredUser Response outcome"
  where
  "register_try e d mail uname pw salt now =
     (case prisma_user_findUnique_email d mail of
        Some existingUserByEmail \<Rightarrow> (Inl (ConflictException ''Email already exists''), d)
      | None \<Rightarrow>
          (let hashedPassword = argon2_hash e salt pw
           in case prisma_user_create d mail uname hashedPassword False now of
                (Inl err, d') \<Rightarrow> (Inl err, d')
              | (Inr user, d') \<Rightarrow>
                  (Inr \<lparr>success = True, message = ''User registered successfully'',
                        data = \<lparr>ru_id = u_id user, ru_email = u_email user,
                                 ru_username = u_username user,
                                 ru_createdAt = u_createdAt user\<rparr>\<rparr>, d')))"

fun register_catch :: "exception \<Rightarrow> exception" where
  "register_catch (ConflictException m) = ConflictException m"
| "register_catch error = BadRequestException ''Failed to register user''"

definition register ::
  "env \<Rightarrow> db \<Rightarrow> string \<Rightarrow> string \<Rightarrow> string \<Rightarrow> string \<Rightarrow> int \<Rightarrow> RegisteredUser Response outcome"
  where
  "register e d mail uname pw salt now =
     (case register_try e d mail uname pw salt now of
        (Inl err, d') \<Rightarrow> (Inl (register_catch err), d')
      | (Inr res, d') \<Rightarrow> (Inr res, d'))"

definition login ::
  "env \<Rightarrow> db \<Rightarrow> string \<Rightarrow> string \<Rightarrow> string \<Rightarrow> string \<Rightarrow> int
     \<Rightarrow> (CurrentUserData \<times> Tokens) Response outcome" where
  "login e d mail pw userAgent ipAddress now =
     (case prisma_user_findUnique_email d mail of
        None \<Rightarrow> (Inl (UnauthorizedException ''Invalid email or password''), d)
      | Some user \<Rightarrow>
          if u_isLocked user then (Inl (UnauthorizedException ''Account is locked''), d)
          else if \<not> argon2_verify e (u_password user) pw
            then (Inl (UnauthorizedException ''Invalid email or password''), d)
          else
            (let tokens = generateTokens e (u_id user) (u_username user) (u_email user) now
             in case saveRefreshToken d (u_id user) (refreshToken tokens) userAgent ipAddress now of
                  (Inl err, d') \<Rightarrow> (Inl err, d')
                | (Inr row, d') \<Rightarrow>
                    (Inr \<lparr>success = True, message = ''User logged in successfully'',
                          data = (\<lparr>cu_id = u_id user, cu_username = u_username user,
                                    cu_email = u_email user\<rparr>, tokens)\<rparr>, d')))"

definition logout :: "db \<Rightarrow> int \<Rightarrow> string \<Rightarrow> unit Response outcome" where
  "logout d userId tok =
     (Inr \<lparr>success = True, message = ''Logout successful'', data = ()\<rparr>,
      prisma_userTokens_deleteMany d (\<lambda>r. t_userId r = userId \<and> t_refreshToken r = tok))"

definition refreshTokens :: "env \<Rightarrow> db \<Rightarrow> string \<Rightarrow> int \<Rightarrow> Tokens Response outcome" where
  "refreshTokens e d tok now =
     (case prisma_userTokens_findUnique d tok of
        None \<Rightarrow> (Inl (UnauthorizedException ''Invalid refresh token''), d)
      | Some (tokenRecord, tokenRecord_user) \<Rightarrow>
          if now > t_expiresAt tokenRecord then
            (case prisma_userTokens_delete d tok of
               (Inl err, d') \<Rightarrow> (Inl err, d')
             | (Inr u, d') \<Rightarrow> (Inl (UnauthorizedException ''Refresh token expired''), d'))
          else
            (case verifyAsync e tok (config_or e ''JWT_REFRESH_SECRET'' ''your-refresh-secret'') now of
               None \<Rightarrow> (Inl (UnauthorizedException ''Invalid refresh token''), d)
             | Some payload \<Rightarrow>
                 (case tokenRecord_user of
                    None \<Rightarrow> (Inl TypeError, d)
                  | Some user \<Rightarrow>
                      (let tokens = generateTokens e (u_id user) (u_username user) (u_email user) now
                       in case prisma_userTokens_update d (t_id tokenRecord) (refreshToken tokens) now
                                 (now + 7 * 24 * 60 * 60 * 1000) now of
                            (Inl err, d') \<Rightarrow> (Inl err, d')
                          | (Inr u, d') \<Rightarrow>
                              (Inr \<lparr>success = True, message = ''Tokens refreshed successfully'',
                                    data = tokens\<rparr>, d')))))"

definition changePassword ::
  "env \<Rightarrow> db \<Rightarrow> int \<Rightarrow> string \<Rightarrow> string \<Rightarrow> string \<Rightarrow> string \<Rightarrow> int \<Rightarrow> unit Response outcome"
  where
  "changePassword e d userId currentPassword newPassword confirmPassword salt now =
     (if newPassword \<noteq> confirmPassword
        then (Inl (ConflictException ''New passwords do not match''), d)
      else if currentPassword = newPassword
        then (Inl (ConflictException ''New password must be different from current password''), d)
      else
        (case prisma_user_findUnique_id d userId of
           None \<Rightarrow> (Inl (UnauthorizedException ''User not found''), d)
         | Some user \<Rightarrow>
             if \<not> argon2_verify e (u_password user) currentPassword
               then (Inl (UnauthorizedException ''Current password is incorrect''), d)
             else
               (let hashedNewPassword = argon2_hash e salt newPassword
                in case prisma_user_update d userId hashedNewPassword now of
                     (Inl err, d') \<Rightarrow> (Inl err, d')
                   | (Inr u, d') \<Rightarrow>
                       (Inr \<lparr>success = True,
                             message = ''Password changed successfully. Please login again.'',
                             data = ()\<rparr>,
                        prisma_userTokens_deleteMany d' (\<lambda>r. t_userId r = userId)))))"

section \<open>The access-token strategy\<close>

text \<open>
  \<open>JwtStrategy.validate\<close> runs on the payload of an access token that has passed
  signature and expiry verification.
\<close>

definition validate :: "db \<Rightarrow> JwtPayload \<Rightarrow> exception + CurrentUserData" where
  "validate d payload =
     (case prisma_user_findUnique_id d (sub payload) of
        None \<Rightarrow> Inl (UnauthorizedException ''User not found'')
      | Some user \<Rightarrow>
          if u_isLocked user then Inl (UnauthorizedException ''Account is locked'')
          else Inr \<lparr>cu_id = u_id user, cu_username = u_username user, cu_email = u_email user\<rparr>)"

section \<open>Runs of the service\<close>

text \<open>
  The calls a client can make on the service, and the store that a sequence of calls,
  each made at its own time, leaves behind (whether a call returns or throws).
\<close>

datatype call =
    Register string string string string
  | Login string string string string
  | Logout int string
  | RefreshTokens string
  | ChangePassword int string string string string

fun apply_call :: "env \<Rightarrow> db \<Rightarrow> call \<Rightarrow> int \<Rightarrow> db" where
  "apply_call e d (Register mail uname pw salt) now = snd (register e d mail uname pw salt now)"
| "apply_call e d (Login mail pw userAgent ipAddress) now =
     snd (login e d mail pw userAgent ipAddress now)"
| "apply_call e d (Logout userId tok) now = snd (logout d userId tok)"
| "apply_call e d (RefreshTokens tok) now = snd (refreshTokens e d tok now)"
| "apply_call e d (ChangePassword userId cur new conf salt) now =
     snd (changePassword e d userId cur new conf salt now)"

fun run :: "env \<Rightarrow> db \<Rightarrow> (call \<times> int) list \<Rightarrow> db" where
  "run e d [] = d"
| "run e d ((c, now) # cs) = run e (apply_call e d c now) cs"

section \<open>A concrete instance\<close>

text \<open>
  A small instance of the collaborators and of the store, on which the operations can be
  run. The hasher joins salt and plaintext. The codec signs by joining secret, subject
  email, lifetime and the issue time in whole seconds (written in unary), so, like an
  HMAC-signed token without a nonce, it is a function of the payload, the secret, the
  lifetime and the second of issue. It accepts a token that starts with the secret and
  reports one fixed payload for it; \<open>refreshTokens\<close> discards the payload, and
  \<open>validate\<close> is given its payload directly.
\<close>

definition example_env :: "(string \<times> string) list \<Rightarrow> env" where
  "example_env cfg =
     \<lparr>argon2_hash = (\<lambda>salt p. salt @ ''$'' @ p),
      argon2_verify = (\<lambda>h p. dropWhile (\<lambda>c. c \<noteq> CHR ''$'') h = CHR ''$'' # p),
      signAsync = (\<lambda>payload secret expiresIn now.
                     secret @ ''.'' @ email payload @ ''.'' @ expiresIn @ ''.''
                       @ replicate (nat (now div 1000)) (CHR ''1'')),
      verifyAsync = (\<lambda>tok secret now.
                       if take (length secret) tok = secret
                       then Some \<lparr>sub = 1, username = ''alice'', email = ''a@x.com''\<rparr>
                       else None),
      config = map_of cfg\<rparr>"

definition example_config :: "(string \<times> string) list" where
  "example_config = [(''JWT_SECRET'', ''as''), (''JWT_REFRESH_SECRET'', ''rs'')]"

definition alice :: User where
  "alice = \<lparr>u_id = 1, u_email = ''a@x.com'', u_password = ''s$Abc123'', u_username = ''alice'',
            u_isLocked = False, u_createdAt = 0, u_updatedAt = 0\<rparr>"

definition bob :: User where
  "bob = \<lparr>u_id = 2, u_email = ''b@x.com'', u_password = ''s$Bob456'', u_username = ''bob'',
          u_isLocked = True, u_createdAt = 0, u_updatedAt = 0\<rparr>"

definition session :: "int \<Rightarrow> int \<Rightarrow> string \<Rightarrow> int \<Rightarrow> UserTokens" where
  "session i uid tok at =
     \<lparr>t_id = i, t_userId = uid, t_refreshToken = tok, t_userAgent = ''ua'',
      t_ipAddress = ''ip'', t_deviceInfo = ''ua'', t_lastUsedAt = at,
      t_expiresAt = at + 604800000, t_createdAt = 1000, t_updatedAt = at\<rparr>"

text \<open>
  Alice with a session opened at time 1000 and a second row whose token no secret ever
  signed; Bob, locked, with a session opened at time 1000.
\<close>

definition example_db :: db where
  "example_db =
     \<lparr>users = [alice, bob],
      userTokens = [session 1 1 ''rs.a@x.com.7d.1'' 1000,
                    session 2 2 ''rs.b@x.com.7d.1'' 1000,
                    session 3 1 ''forged'' 1000],
      users_seq = 3, userTokens_seq = 4\<rparr>"

text \<open>Alice alone, registered and not logged in.\<close>

definition example_db0 :: db where
  "example_db0 = \<lparr>users = [alice], userTokens = [], users_seq = 2, userTokens_seq = 1\<rparr>"

lemmas store_defs =
  config_or_def prisma_user_findUnique_email_def prisma_user_findUnique_id_def
  prisma_user_create_def prisma_user_update_def prisma_userTokens_findUnique_def
  prisma_userTokens_create_def prisma_userTokens_delete_def prisma_userTokens_deleteMany_def
  prisma_userTokens_update_def

lemmas example_defs =
  example_env_def example_config_def alice_def bob_def session_def example_db_def
  example_db0_def

section \<open>Lookups by a unique column\<close>

lemma find_distinct_key:
  "distinct (map f xs) \<Longrightarrow> x \<in> set xs \<Longrightarrow> find (\<lambda>y. f y = f x) xs = Some x"
  by (induction xs) (auto simp: image_iff)

lemma find_Some_key: "find (\<lambda>y. f y = k) xs = Some x \<Longrightarrow> x \<in> set xs \<and> f x = k"
  by (induction xs) (auto split: if_splits)

lemma find_None_key: "find (\<lambda>y. f y = k) xs = None \<longleftrightarrow> k \<notin> set (map f xs)"
  by (induction xs) auto


section \<open>Refresh: rotation in place\<close>

text \<open>The pair that \<open>generateTokens\<close> returns, as the two signatures it is.\<close>

lemma generateTokens_signs:
  "generateTokens e i n m now =
     \<lparr>accessToken = signAsync e \<lparr>sub = i, username = n, email = m\<rparr>
        (config_or e ''JWT_SECRET'' ''your-secret-jwt-key'') (config_or e ''JWT_EXPIRES_IN'' ''15m'') now,
      refreshToken = signAsync e \<lparr>sub = i, username = n, email = m\<rparr>
        (config_or e ''JWT_REFRESH_SECRET'' ''your-refresh-secret'')
        (config_or e ''JWT_REFRESH_EXPIRES_IN'' ''7d'') now\<rparr>"
  by (simp add: generateTokens_def Let_def)

text \<open>What a successful refresh has gone through.\<close>

lemma refreshTokens_Inr:
  assumes "refreshTokens e d tok now = (Inr res, d')"
  obtains row user where
    "find (\<lambda>r. t_refreshToken r = tok) (userTokens d) = Some row"
    "prisma_user_findUnique_id d (t_userId row) = Some user"
    "\<not> now > t_expiresAt row"
    "verifyAsync e tok (config_or e ''JWT_REFRESH_SECRET'' ''your-refresh-secret'') now \<noteq> None"
    "res = \<lparr>success = True, message = ''Tokens refreshed successfully'',
            data = generateTokens e (u_id user) (u_username user) (u_email user) now\<rparr>"
    "prisma_userTokens_update d (t_id row) (refreshToken (data res)) now
       (now + 7 * 24 * 60 * 60 * 1000) now = (Inr (), d')"
  using assms
  by (auto simp: refreshTokens_def prisma_userTokens_findUnique_def Let_def
           split: option.splits if_splits prod.splits sum.splits)




section \<open>Refresh: the failure cases\<close>

lemma userTokens_findUnique_Some:
  "prisma_userTokens_findUnique d tok = Some (row, u) \<Longrightarrow>
     row \<in> set (userTokens d) \<and> t_refreshToken row = tok \<and>
     u = prisma_user_findUnique_id d (t_userId row)"
  by (auto simp: prisma_userTokens_findUnique_def split: option.splits dest: find_Some_key)

lemma userTokens_findUnique_None:
  "prisma_userTokens_findUnique d tok = None \<longleftrightarrow> tok \<notin> set (map t_refreshToken (userTokens d))"
proof -
  have "prisma_userTokens_findUnique d tok = None \<longleftrightarrow>
          find (\<lambda>r. t_refreshToken r = tok) (userTokens d) = None"
    by (simp add: prisma_userTokens_findUnique_def split: option.splits)
  then show ?thesis by (simp only: find_None_key)
qed

lemma refreshTokens_absent:
  "prisma_userTokens_findUnique d tok = None \<Longrightarrow>
     refreshTokens e d tok now = (Inl (UnauthorizedException ''Invalid refresh token''), d)"
  by (simp add: refreshTokens_def)

lemma refreshTokens_expired:
  assumes "prisma_userTokens_findUnique d tok = Some (row, u)" and "now > t_expiresAt row"
  shows "refreshTokens e d tok now =
           (Inl (UnauthorizedException ''Refresh token expired''),
            d\<lparr>userTokens := filter (\<lambda>r. t_refreshToken r \<noteq> tok) (userTokens d)\<rparr>)"
proof -
  from assms(1) have "tok \<in> set (map t_refreshToken (userTokens d))"
    using userTokens_findUnique_Some by fastforce
  then have "prisma_userTokens_delete d tok =
               (Inr (), d\<lparr>userTokens := filter (\<lambda>r. t_refreshToken r \<noteq> tok) (userTokens d)\<rparr>)"
    by (simp add: prisma_userTokens_delete_def)
  with assms show ?thesis by (simp add: refreshTokens_def)
qed

lemma refreshTokens_bad_signature:
  assumes "prisma_userTokens_findUnique d tok = Some (row, u)" and "\<not> now > t_expiresAt row"
    and "verifyAsync e tok (config_or e ''JWT_REFRESH_SECRET'' ''your-refresh-secret'') now = None"
  shows "refreshTokens e d tok now = (Inl (UnauthorizedException ''Invalid refresh token''), d)"
  using assms by (simp add: refreshTokens_def)

lemma userTokens_update_not_unauthorized:
  "fst (prisma_userTokens_update d i tok used exp now) \<noteq> Inl (UnauthorizedException m)"
  by (simp add: prisma_userTokens_update_def)

lemma refreshTokens_verified_not_unauthorized:
  assumes "prisma_userTokens_findUnique d tok = Some (row, u)" and "\<not> now > t_expiresAt row"
    and "verifyAsync e tok (config_or e ''JWT_REFRESH_SECRET'' ''your-refresh-secret'') now \<noteq> None"
  shows "fst (refreshTokens e d tok now) \<noteq> Inl (UnauthorizedException m)"
proof (cases u)
  case None
  with assms show ?thesis by (auto simp: refreshTokens_def)
next
  case (Some user)
  obtain r d' where upd: "prisma_userTokens_update d (t_id row)
      (refreshToken (generateTokens e (u_id user) (u_username user) (u_email user) now))
      now (now + 7 * 24 * 60 * 60 * 1000) now = (r, d')"
    by (cases "prisma_userTokens_update d (t_id row)
      (refreshToken (generateTokens e (u_id user) (u_username user) (u_email user) now))
      now (now + 7 * 24 * 60 * 60 * 1000) now") 
  have "r \<noteq> Inl (UnauthorizedException m)"
    using userTokens_update_not_unauthorized [of d "t_id row" _ now _ now m] upd
    by (metis fst_conv)
  with assms Some upd show ?thesis
    by (cases r) (auto simp: refreshTokens_def Let_def)
qed

lemma userTokens_update_Inl:
  "prisma_userTokens_update d i tok used exp now = (Inl err, d') \<Longrightarrow> d' = d"
  by (auto simp: prisma_userTokens_update_def split: if_splits)

lemma userTokens_update_Inr:
  assumes "prisma_userTokens_update d i tok used exp now = (Inr (), d')"
  shows "i \<in> set (map t_id (userTokens d))"
    and "\<forall>r \<in> set (userTokens d). t_refreshToken r = tok \<longrightarrow> t_id r = i"
    and "d' = d\<lparr>userTokens :=
                 map (\<lambda>r. if t_id r = i
                           then r\<lparr>t_refreshToken := tok, t_lastUsedAt := used,
                                   t_expiresAt := exp, t_updatedAt := now\<rparr>
                           else r) (userTokens d)\<rparr>"
  using assms unfolding prisma_userTokens_update_def by (auto split: if_splits)

lemma refreshTokens_error_keeps_store:
  assumes r: "refreshTokens e d tok now = (Inl err, d')"
    and ne: "err \<noteq> UnauthorizedException ''Refresh token expired''"
  shows "d' = d"
proof (cases "prisma_userTokens_findUnique d tok")
  case None
  with r show ?thesis by (simp add: refreshTokens_def)
next
  case (Some a)
  obtain row u where a: "a = (row, u)" by (cases a)
  show ?thesis
  proof (cases "now > t_expiresAt row")
    case True
    with Some a r ne refreshTokens_expired [of d tok row u now e] show ?thesis by simp
  next
    case False
    show ?thesis
    proof (cases "verifyAsync e tok (config_or e ''JWT_REFRESH_SECRET'' ''your-refresh-secret'') now")
      case None
      with Some a False r show ?thesis by (simp add: refreshTokens_def)
    next
      case v: (Some p)
      show ?thesis
      proof (cases u)
        case None
        with Some a False v r show ?thesis by (simp add: refreshTokens_def)
      next
        case u: (Some user)
        let ?new = "refreshToken (generateTokens e (u_id user) (u_username user) (u_email user) now)"
        obtain x d1 where c: "prisma_userTokens_update d (t_id row) ?new now
            (now + 7 * 24 * 60 * 60 * 1000) now = (x, d1)"
          by (cases "prisma_userTokens_update d (t_id row) ?new now
            (now + 7 * 24 * 60 * 60 * 1000) now")
        with Some a False v u r obtain err' where "x = Inl err'" and "d1 = d'"
          by (cases x) (simp_all add: refreshTokens_def Let_def)
        with c userTokens_update_Inl show ?thesis by blast
      qed
    qed
  qed
qed

text \<open>
  C3. The three ways a refresh is refused as unauthorized, in the order they are checked.
  (1) No session row holds the token: ``Invalid refresh token'', store unchanged.
  (2) A row holds it and \<open>now > expiresAt\<close>: the row is deleted and the error is
  ``Refresh token expired''. (3) The row is unexpired and the token fails verification
  against the refresh secret: ``Invalid refresh token'', store unchanged. In every other
  case (row found, unexpired, verified) the outcome is not an unauthorized error. The
  deletion in case (2) is the only change an error path makes: whenever the call throws
  anything else, the store is as it was.
\<close>

theorem refreshTokens_unauthorized_cases:
  "(prisma_userTokens_findUnique d tok = None \<longrightarrow>
      refreshTokens e d tok now = (Inl (UnauthorizedException ''Invalid refresh token''), d)) \<and>
   (\<forall>row u. prisma_userTokens_findUnique d tok = Some (row, u) \<and> now > t_expiresAt row \<longrightarrow>
      refreshTokens e d tok now =
        (Inl (UnauthorizedException ''Refresh token expired''),
         d\<lparr>userTokens := filter (\<lambda>r. t_refreshToken r \<noteq> tok) (userTokens d)\<rparr>) \<and>
      row \<in> set (userTokens d) \<and>
      row \<notin> set (filter (\<lambda>r. t_refreshToken r \<noteq> tok) (userTokens d))) \<and>
   (\<forall>row u. prisma_userTokens_findUnique d tok = Some (row, u) \<and> \<not> now > t_expiresAt row \<and>
      verifyAsync e tok (config_or e ''JWT_REFRESH_SECRET'' ''your-refresh-secret'') now = None \<longrightarrow>
      refreshTokens e d tok now = (Inl (UnauthorizedException ''Invalid refresh token''), d)) \<and>
   (\<forall>row u. prisma_userTokens_findUnique d tok = Some (row, u) \<and> \<not> now > t_expiresAt row \<and>
      verifyAsync e tok (config_or e ''JWT_REFRESH_SECRET'' ''your-refresh-secret'') now \<noteq> None \<longrightarrow>
      (\<forall>m. fst (refreshTokens e d tok now) \<noteq> Inl (UnauthorizedException m))) \<and>
   (\<forall>err. fst (refreshTokens e d tok now) = Inl err \<and>
      err \<noteq> UnauthorizedException ''Refresh token expired'' \<longrightarrow>
      snd (refreshTokens e d tok now) = d)"
proof (intro conjI allI impI)
  show "refreshTokens e d tok now = (Inl (UnauthorizedException ''Invalid refresh token''), d)"
    if "prisma_userTokens_findUnique d tok = None"
    using that by (rule refreshTokens_absent)
next
  fix row u
  assume h: "prisma_userTokens_findUnique d tok = Some (row, u) \<and> now > t_expiresAt row"
  then show "refreshTokens e d tok now =
        (Inl (UnauthorizedException ''Refresh token expired''),
         d\<lparr>userTokens := filter (\<lambda>r. t_refreshToken r \<noteq> tok) (userTokens d)\<rparr>)"
    using refreshTokens_expired by blast
  from h show "row \<in> set (userTokens d)"
    using userTokens_findUnique_Some by blast
  from h show "row \<notin> set (filter (\<lambda>r. t_refreshToken r \<noteq> tok) (userTokens d))"
    using userTokens_findUnique_Some by fastforce
next
  fix row u
  assume "prisma_userTokens_findUnique d tok = Some (row, u) \<and> \<not> now > t_expiresAt row \<and>
      verifyAsync e tok (config_or e ''JWT_REFRESH_SECRET'' ''your-refresh-secret'') now = None"
  then show "refreshTokens e d tok now = (Inl (UnauthorizedException ''Invalid refresh token''), d)"
    using refreshTokens_bad_signature by blast
next
  fix row u m
  assume "prisma_userTokens_findUnique d tok = Some (row, u) \<and> \<not> now > t_expiresAt row \<and>
      verifyAsync e tok (config_or e ''JWT_REFRESH_SECRET'' ''your-refresh-secret'') now \<noteq> None"
  then show "fst (refreshTokens e d tok now) \<noteq> Inl (UnauthorizedException m)"
    using refreshTokens_verified_not_unauthorized by blast
next
  fix err
  assume "fst (refreshTokens e d tok now) = Inl err \<and>
      err \<noteq> UnauthorizedException ''Refresh token expired''"
  then show "snd (refreshTokens e d tok now) = d"
    using refreshTokens_error_keeps_store [of e d tok now err "snd (refreshTokens e d tok now)"]
    by (metis prod.collapse)
qed


text \<open>
  The four cases on the example store: an unknown token, Alice's token after its expiry,
  the forged token, and Alice's token in time.
\<close>

theorem refreshTokens_unauthorized_cases_witness:
  "(prisma_userTokens_findUnique example_db ''nope'' = None \<and>
    refreshTokens (example_env example_config) example_db ''nope'' 2500 =
      (Inl (UnauthorizedException ''Invalid refresh token''), example_db)) \<and>
   (prisma_userTokens_findUnique example_db ''rs.a@x.com.7d.1'' =
      Some (session 1 1 ''rs.a@x.com.7d.1'' 1000, Some alice) \<and>
    604801001 > t_expiresAt (session 1 1 ''rs.a@x.com.7d.1'' 1000) \<and>
    refreshTokens (example_env example_config) example_db ''rs.a@x.com.7d.1'' 604801001 =
      (Inl (UnauthorizedException ''Refresh token expired''),
       example_db\<lparr>userTokens :=
         filter (\<lambda>r. t_refreshToken r \<noteq> ''rs.a@x.com.7d.1'') (userTokens example_db)\<rparr>)) \<and>
   (prisma_userTokens_findUnique example_db ''forged'' = Some (session 3 1 ''forged'' 1000, Some alice) \<and>
    \<not> 2500 > t_expiresAt (session 3 1 ''forged'' 1000) \<and>
    verifyAsync (example_env example_config) ''forged''
      (config_or (example_env example_config) ''JWT_REFRESH_SECRET'' ''your-refresh-secret'') 2500 = None \<and>
    refreshTokens (example_env example_config) example_db ''forged'' 2500 =
      (Inl (UnauthorizedException ''Invalid refresh token''), example_db)) \<and>
   (\<not> 2500 > t_expiresAt (session 1 1 ''rs.a@x.com.7d.1'' 1000) \<and>
    verifyAsync (example_env example_config) ''rs.a@x.com.7d.1''
      (config_or (example_env example_config) ''JWT_REFRESH_SECRET'' ''your-refresh-secret'') 2500 \<noteq> None \<and>
    fst (refreshTokens (example_env example_config) example_db ''rs.a@x.com.7d.1'' 2500) \<noteq>
      Inl (UnauthorizedException ''Invalid refresh token'')) \<and>
   (fst (refreshTokens (example_env example_config) example_db ''forged'' 2500) =
      Inl (UnauthorizedException ''Invalid refresh token'') \<and>
    UnauthorizedException ''Invalid refresh token'' \<noteq> UnauthorizedException ''Refresh token expired'' \<and>
    snd (refreshTokens (example_env example_config) example_db ''forged'' 2500) = example_db)"
proof -
  note cases = refreshTokens_unauthorized_cases [where e = "example_env example_config" and d = example_db]
  have a: "prisma_userTokens_findUnique example_db ''nope'' = None"
    by (simp add: store_defs example_defs)
  have b: "prisma_userTokens_findUnique example_db ''rs.a@x.com.7d.1'' =
      Some (session 1 1 ''rs.a@x.com.7d.1'' 1000, Some alice)"
    by (simp add: store_defs example_defs)
  have b': "604801001 > t_expiresAt (session 1 1 ''rs.a@x.com.7d.1'' 1000)"
    by (simp add: session_def)
  have c: "prisma_userTokens_findUnique example_db ''forged'' = Some (session 3 1 ''forged'' 1000, Some alice)"
    by (simp add: store_defs example_defs)
  have c': "\<not> 2500 > t_expiresAt (session 3 1 ''forged'' 1000)"
    by (simp add: session_def)
  have c'': "verifyAsync (example_env example_config) ''forged''
      (config_or (example_env example_config) ''JWT_REFRESH_SECRET'' ''your-refresh-secret'') 2500 = None"
    by (simp add: store_defs example_defs)
  have d': "\<not> 2500 > t_expiresAt (session 1 1 ''rs.a@x.com.7d.1'' 1000)"
    by (simp add: session_def)
  have d'': "verifyAsync (example_env example_config) ''rs.a@x.com.7d.1''
      (config_or (example_env example_config) ''JWT_REFRESH_SECRET'' ''your-refresh-secret'') 2500 \<noteq> None"
    by (simp add: store_defs example_defs)
  from cases [of "''nope''" 2500] a
  have A: "refreshTokens (example_env example_config) example_db ''nope'' 2500 =
      (Inl (UnauthorizedException ''Invalid refresh token''), example_db)"
    by (elim conjE impE)
  from cases [of "''rs.a@x.com.7d.1''" 604801001] b b'
  have B: "refreshTokens (example_env example_config) example_db ''rs.a@x.com.7d.1'' 604801001 =
      (Inl (UnauthorizedException ''Refresh token expired''),
       example_db\<lparr>userTokens :=
         filter (\<lambda>r. t_refreshToken r \<noteq> ''rs.a@x.com.7d.1'') (userTokens example_db)\<rparr>)"
    by blast
  from cases [of "''forged''" 2500] c c' c''
  have C: "refreshTokens (example_env example_config) example_db ''forged'' 2500 =
      (Inl (UnauthorizedException ''Invalid refresh token''), example_db)"
    by blast
  from cases [of "''rs.a@x.com.7d.1''" 2500] b d' d''
  have D: "fst (refreshTokens (example_env example_config) example_db ''rs.a@x.com.7d.1'' 2500) \<noteq>
      Inl (UnauthorizedException ''Invalid refresh token'')"
    by blast
  from C have e: "fst (refreshTokens (example_env example_config) example_db ''forged'' 2500) =
      Inl (UnauthorizedException ''Invalid refresh token'')"
    by simp
  have e': "UnauthorizedException ''Invalid refresh token'' \<noteq>
      UnauthorizedException ''Refresh token expired''"
    by simp
  from cases [of "''forged''" 2500] e e'
  have E: "snd (refreshTokens (example_env example_config) example_db ''forged'' 2500) = example_db"
    by blast
  from a b b' c c' c'' d' d'' A B C D e e' E show ?thesis by (intro conjI)
qed

section \<open>Which token values a run can store\<close>

text \<open>
  A call stores no token value that was not stored before, except what the codec signs
  at the time of the call.
\<close>

lemma stored_user_create:
  "userTokens (snd (prisma_user_create d em un pw locked now)) = userTokens d"
  by (simp add: prisma_user_create_def Let_def)

lemma stored_user_update:
  "userTokens (snd (prisma_user_update d i pw now)) = userTokens d"
  by (simp add: prisma_user_update_def)

lemma stored_create:
  "set (map t_refreshToken (userTokens (snd (prisma_userTokens_create d uid tok ua ip dev exp now))))
     \<subseteq> insert tok (set (map t_refreshToken (userTokens d)))"
  by (auto simp: prisma_userTokens_create_def Let_def)

lemma stored_delete:
  "set (map t_refreshToken (userTokens (snd (prisma_userTokens_delete d tok))))
     \<subseteq> set (map t_refreshToken (userTokens d))"
  by (auto simp: prisma_userTokens_delete_def)

lemma stored_deleteMany:
  "set (map t_refreshToken (userTokens (prisma_userTokens_deleteMany d matches)))
     \<subseteq> set (map t_refreshToken (userTokens d))"
  by (auto simp: prisma_userTokens_deleteMany_def)

lemma stored_update:
  "set (map t_refreshToken (userTokens (snd (prisma_userTokens_update d i tok used exp now))))
     \<subseteq> insert tok (set (map t_refreshToken (userTokens d)))"
proof (cases "prisma_userTokens_update d i tok used exp now")
  case (Pair r d')
  show ?thesis
  proof (cases r)
    case (Inl err)
    with Pair userTokens_update_Inl have "d' = d" by blast
    with Pair show ?thesis by auto
  next
    case (Inr u)
    with Pair have "prisma_userTokens_update d i tok used exp now = (Inr (), d')" by simp
    from userTokens_update_Inr(3) [OF this] Pair show ?thesis
      by (auto split: if_splits)
  qed
qed

lemma stored_register:
  "userTokens (snd (register e d mail un pw salt now)) = userTokens d"
proof (cases "prisma_user_findUnique_email d mail")
  case (Some u)
  then show ?thesis by (simp add: register_def register_try_def)
next
  case None
  obtain r d1 where c: "prisma_user_create d mail un (argon2_hash e salt pw) False now = (r, d1)"
    by (cases "prisma_user_create d mail un (argon2_hash e salt pw) False now")
  with stored_user_create [of d mail un "argon2_hash e salt pw" False now]
  have "userTokens d1 = userTokens d" by simp
  with None c show ?thesis
    by (cases r) (simp_all add: register_def register_try_def)
qed

lemma stored_login:
  "set (map t_refreshToken (userTokens (snd (login e d mail pw ua ip now))))
     \<subseteq> set (map t_refreshToken (userTokens d)) \<union> {signAsync e p s x now |p s x. True}"
proof (cases "prisma_user_findUnique_email d mail")
  case None
  then show ?thesis by (simp add: login_def)
next
  case (Some user)
  let ?tok = "refreshToken (generateTokens e (u_id user) (u_username user) (u_email user) now)"
  have m: "?tok \<in> {signAsync e p s x now |p s x. True}"
    by (auto simp: generateTokens_def Let_def)
  obtain r d1 where c: "saveRefreshToken d (u_id user) ?tok ua ip now = (r, d1)"
    by (cases "saveRefreshToken d (u_id user) ?tok ua ip now")
  with stored_create [of d "u_id user" ?tok ua ip ua "now + 7 * 24 * 60 * 60 * 1000" now]
  have "set (map t_refreshToken (userTokens d1)) \<subseteq> insert ?tok (set (map t_refreshToken (userTokens d)))"
    by (simp add: saveRefreshToken_def)
  with m have d1: "set (map t_refreshToken (userTokens d1))
      \<subseteq> set (map t_refreshToken (userTokens d)) \<union> {signAsync e p s x now |p s x. True}"
    by blast
  have "snd (login e d mail pw ua ip now) = d \<or> snd (login e d mail pw ua ip now) = d1"
    using Some c by (cases r) (simp_all add: login_def Let_def)
  with d1 show ?thesis by auto
qed

lemma stored_logout:
  "set (map t_refreshToken (userTokens (snd (logout d uid tok))))
     \<subseteq> set (map t_refreshToken (userTokens d))"
  unfolding logout_def snd_conv by (rule stored_deleteMany)

lemma stored_refreshTokens:
  "set (map t_refreshToken (userTokens (snd (refreshTokens e d tok now))))
     \<subseteq> set (map t_refreshToken (userTokens d)) \<union> {signAsync e p s x now |p s x. True}"
proof (cases "prisma_userTokens_findUnique d tok")
  case None
  then show ?thesis by (simp add: refreshTokens_def)
next
  case (Some a)
  obtain row u where a: "a = (row, u)" by (cases a)
  show ?thesis
  proof (cases "now > t_expiresAt row")
    case True
    obtain r d1 where c: "prisma_userTokens_delete d tok = (r, d1)"
      by (cases "prisma_userTokens_delete d tok")
    with stored_delete [of d tok]
    have "set (map t_refreshToken (userTokens d1)) \<subseteq> set (map t_refreshToken (userTokens d))"
      by simp
    moreover have "snd (refreshTokens e d tok now) = d1"
      using Some a True c by (cases r) (simp_all add: refreshTokens_def)
    ultimately show ?thesis by auto
  next
    case False
    show ?thesis
    proof (cases "verifyAsync e tok (config_or e ''JWT_REFRESH_SECRET'' ''your-refresh-secret'') now")
      case None
      with Some a False show ?thesis by (simp add: refreshTokens_def)
    next
      case v: (Some p)
      show ?thesis
      proof (cases u)
        case None
        with Some a False v show ?thesis by (simp add: refreshTokens_def)
      next
        case u: (Some user)
        let ?new = "refreshToken (generateTokens e (u_id user) (u_username user) (u_email user) now)"
        have m: "?new \<in> {signAsync e p s x now |p s x. True}"
          by (auto simp: generateTokens_def Let_def)
        obtain r d1 where c: "prisma_userTokens_update d (t_id row) ?new now
            (now + 7 * 24 * 60 * 60 * 1000) now = (r, d1)"
          by (cases "prisma_userTokens_update d (t_id row) ?new now
            (now + 7 * 24 * 60 * 60 * 1000) now")
        with stored_update [of d "t_id row" ?new now "now + 7 * 24 * 60 * 60 * 1000" now]
        have "set (map t_refreshToken (userTokens d1))
            \<subseteq> insert ?new (set (map t_refreshToken (userTokens d)))"
          by simp
        with m have d1: "set (map t_refreshToken (userTokens d1))
            \<subseteq> set (map t_refreshToken (userTokens d)) \<union> {signAsync e p s x now |p s x. True}"
          by blast
        have "snd (refreshTokens e d tok now) = d1"
          using Some a False v u c by (cases r) (simp_all add: refreshTokens_def Let_def)
        with d1 show ?thesis by simp
      qed
    qed
  qed
qed

lemma stored_changePassword:
  "set (map t_refreshToken (userTokens (snd (changePassword e d uid cur new conf salt now))))
     \<subseteq> set (map t_refreshToken (userTokens d))"
proof (cases "new \<noteq> conf \<or> cur = new")
  case True
  then show ?thesis by (auto simp: changePassword_def)
next
  case guards: False
  show ?thesis
  proof (cases "prisma_user_findUnique_id d uid")
    case None
    with guards show ?thesis by (simp add: changePassword_def)
  next
    case (Some user)
    show ?thesis
    proof (cases "argon2_verify e (u_password user) cur")
      case False
      with guards Some show ?thesis by (simp add: changePassword_def)
    next
      case True
      obtain r d1 where c: "prisma_user_update d uid (argon2_hash e salt new) now = (r, d1)"
        by (cases "prisma_user_update d uid (argon2_hash e salt new) now")
      with stored_user_update [of d uid "argon2_hash e salt new" now]
      have k: "userTokens d1 = userTokens d" by simp
      have "snd (changePassword e d uid cur new conf salt now) = d1 \<or>
            snd (changePassword e d uid cur new conf salt now) =
              prisma_userTokens_deleteMany d1 (\<lambda>r. t_userId r = uid)"
        using guards Some True c by (cases r) (simp_all add: changePassword_def Let_def)
      with k stored_deleteMany [of d1 "\<lambda>r. t_userId r = uid"] show ?thesis
        by auto
    qed
  qed
qed

lemma stored_apply_call:
  "set (map t_refreshToken (userTokens (apply_call e d c now)))
     \<subseteq> set (map t_refreshToken (userTokens d)) \<union> {signAsync e p s x now |p s x. True}"
proof (cases c)
  case (Register mail un pw salt)
  then show ?thesis by (simp add: stored_register)
next
  case (Login mail pw ua ip)
  then show ?thesis using stored_login [of e d mail pw ua ip now] by simp
next
  case (Logout uid tok)
  then show ?thesis using stored_logout [of d uid tok] by auto
next
  case (RefreshTokens tok)
  then show ?thesis using stored_refreshTokens [of e d tok now] by simp
next
  case (ChangePassword uid cur new conf salt)
  then show ?thesis using stored_changePassword [of e d uid cur new conf salt now] by auto
qed

lemma run_keeps_absent:
  assumes "tok \<notin> set (map t_refreshToken (userTokens d))"
    and "\<forall>(c, now) \<in> set cs. \<forall>p s x. signAsync e p s x now \<noteq> tok"
  shows "tok \<notin> set (map t_refreshToken (userTokens (run e d cs)))"
  using assms
proof (induction cs arbitrary: d)
  case Nil
  then show ?case by simp
next
  case (Cons a cs)
  obtain c now where a: "a = (c, now)" by (cases a)
  from Cons.prems(2) a have fresh: "\<forall>p s x. signAsync e p s x now \<noteq> tok"
    and rest: "\<forall>(c, now) \<in> set cs. \<forall>p s x. signAsync e p s x now \<noteq> tok"
    by auto
  from fresh have "tok \<notin> {signAsync e p s x now |p s x. True}" by auto
  with Cons.prems(1) stored_apply_call [of e d c now]
  have "tok \<notin> set (map t_refreshToken (userTokens (apply_call e d c now)))"
    by blast
  from Cons.IH [OF this rest] a show ?case by simp
qed

section \<open>Login: what a failure reveals\<close>

lemma user_findUnique_email_None:
  "prisma_user_findUnique_email d mail = None \<longleftrightarrow> mail \<notin> set (map u_email (users d))"
  by (simp only: prisma_user_findUnique_email_def find_None_key)

lemma user_findUnique_email_Some:
  "distinct (map u_email (users d)) \<Longrightarrow> u \<in> set (users d) \<Longrightarrow>
     prisma_user_findUnique_email d (u_email u) = Some u"
  by (simp only: prisma_user_findUnique_email_def find_distinct_key)

lemma login_unknown_email:
  "mail \<notin> set (map u_email (users d)) \<Longrightarrow>
     login e d mail pw ua ip now = (Inl (UnauthorizedException ''Invalid email or password''), d)"
  using user_findUnique_email_None [of d mail] by (simp add: login_def)

lemma login_wrong_password:
  assumes "distinct (map u_email (users d))" and "u \<in> set (users d)"
    and "\<not> u_isLocked u" and "\<not> argon2_verify e (u_password u) pw"
  shows "login e d (u_email u) pw ua ip now =
           (Inl (UnauthorizedException ''Invalid email or password''), d)"
  using user_findUnique_email_Some [OF assms(1,2)] assms(3,4) by (simp add: login_def)

lemma login_locked:
  assumes "distinct (map u_email (users d))" and "u \<in> set (users d)" and "u_isLocked u"
  shows "login e d (u_email u) pw ua ip now = (Inl (UnauthorizedException ''Account is locked''), d)"
  using user_findUnique_email_Some [OF assms(1,2)] assms(3) by (simp add: login_def)

text \<open>
  C4. With unique emails: a login with an email no user has, and a login with the email
  of an unlocked user and a password that does not verify, both fail as unauthorized
  with the message ``Invalid email or password'' and leave the store unchanged, so the
  two outcomes are equal whatever the other arguments are. A login with the email of a
  locked user fails with ``Account is locked'' for every password, verifying or not.
\<close>

theorem login_failures_indistinguishable:
  assumes "distinct (map u_email (users d))"
  shows "(mail \<notin> set (map u_email (users d)) \<longrightarrow>
            login e d mail pw ua ip now =
              (Inl (UnauthorizedException ''Invalid email or password''), d)) \<and>
         (\<forall>u \<in> set (users d). \<not> u_isLocked u \<and> \<not> argon2_verify e (u_password u) pw' \<longrightarrow>
            login e d (u_email u) pw' ua' ip' now' =
              (Inl (UnauthorizedException ''Invalid email or password''), d)) \<and>
         (\<forall>u \<in> set (users d).
            mail \<notin> set (map u_email (users d)) \<and> \<not> u_isLocked u \<and>
            \<not> argon2_verify e (u_password u) pw' \<longrightarrow>
            login e d mail pw ua ip now = login e d (u_email u) pw' ua' ip' now') \<and>
         (\<forall>u \<in> set (users d). u_isLocked u \<longrightarrow>
            (\<forall>p. login e d (u_email u) p ua ip now =
               (Inl (UnauthorizedException ''Account is locked''), d)))"
  using assms by (simp add: login_unknown_email login_wrong_password login_locked)

text \<open>
  On the example store: an unknown email, Alice with a wrong password, and locked Bob
  with his right and with a wrong password.
\<close>

theorem login_failures_indistinguishable_witness:
  "distinct (map u_email (users example_db)) \<and>
   ''c@x.com'' \<notin> set (map u_email (users example_db)) \<and>
   alice \<in> set (users example_db) \<and> \<not> u_isLocked alice \<and>
   \<not> argon2_verify (example_env example_config) (u_password alice) ''wrong'' \<and>
   bob \<in> set (users example_db) \<and> u_isLocked bob \<and>
   argon2_verify (example_env example_config) (u_password bob) ''Bob456'' \<and>
   login (example_env example_config) example_db ''c@x.com'' ''Abc123'' ''ua'' ''ip'' 2000 =
     (Inl (UnauthorizedException ''Invalid email or password''), example_db) \<and>
   login (example_env example_config) example_db ''c@x.com'' ''Abc123'' ''ua'' ''ip'' 2000 =
     login (example_env example_config) example_db (u_email alice) ''wrong'' ''ua2'' ''ip2'' 3000 \<and>
   login (example_env example_config) example_db (u_email bob) ''Bob456'' ''ua'' ''ip'' 2000 =
     (Inl (UnauthorizedException ''Account is locked''), example_db) \<and>
   login (example_env example_config) example_db (u_email bob) ''wrong'' ''ua'' ''ip'' 2000 =
     (Inl (UnauthorizedException ''Account is locked''), example_db)"
proof -
  have h: "distinct (map u_email (users example_db))"
    by (simp add: example_defs)
  have a: "''c@x.com'' \<notin> set (map u_email (users example_db))"
    by (simp add: example_defs)
  have b: "alice \<in> set (users example_db)" "\<not> u_isLocked alice"
    "\<not> argon2_verify (example_env example_config) (u_password alice) ''wrong''"
    by (simp_all add: example_defs)
  have c: "bob \<in> set (users example_db)" "u_isLocked bob"
    "argon2_verify (example_env example_config) (u_password bob) ''Bob456''"
    by (simp_all add: example_defs)
  note t = login_failures_indistinguishable [OF h, where e = "example_env example_config"
      and mail = "''c@x.com''" and pw = "''Abc123''" and ua = "''ua''" and ip = "''ip''"
      and now = 2000 and pw' = "''wrong''" and ua' = "''ua2''" and ip' = "''ip2''" and now' = 3000]
  from t a have A: "login (example_env example_config) example_db ''c@x.com'' ''Abc123'' ''ua'' ''ip'' 2000 =
     (Inl (UnauthorizedException ''Invalid email or password''), example_db)"
    by blast
  from t a b have B: "login (example_env example_config) example_db ''c@x.com'' ''Abc123'' ''ua'' ''ip'' 2000 =
     login (example_env example_config) example_db (u_email alice) ''wrong'' ''ua2'' ''ip2'' 3000"
    by blast
  from t c have C: "login (example_env example_config) example_db (u_email bob) ''Bob456'' ''ua'' ''ip'' 2000 =
     (Inl (UnauthorizedException ''Account is locked''), example_db)"
    "login (example_env example_config) example_db (u_email bob) ''wrong'' ''ua'' ''ip'' 2000 =
     (Inl (UnauthorizedException ''Account is locked''), example_db)"
    by blast+
  from h a b c A B C show ?thesis by (intro conjI)
qed

section \<open>Registration: duplicates\<close>

lemma register_try_existing_email:
  "mail \<in> set (map u_email (users d)) \<Longrightarrow>
     register_try e d mail un pw salt now = (Inl (ConflictException ''Email already exists''), d)"
  using user_findUnique_email_None [of d mail]
  by (auto simp: register_try_def split: option.splits)

lemma user_create_Inl:
  "prisma_user_create d mail un h locked now = (Inl err, d') \<Longrightarrow>
     err = PrismaError ''P2002'' \<and> d' = d\<lparr>users_seq := users_seq d + 1\<rparr>"
  by (auto simp: prisma_user_create_def Let_def split: if_splits)

lemma register_try_Inl:
  assumes "register_try e d mail un pw salt now = (Inl err, d')"
  shows "err = ConflictException ''Email already exists'' \<and> d' = d \<or>
         err = PrismaError ''P2002'' \<and> d' = d\<lparr>users_seq := users_seq d + 1\<rparr>"
proof (cases "prisma_user_findUnique_email d mail")
  case (Some u)
  with assms show ?thesis by (simp add: register_try_def)
next
  case None
  obtain r d1 where c: "prisma_user_create d mail un (argon2_hash e salt pw) False now = (r, d1)"
    by (cases "prisma_user_create d mail un (argon2_hash e salt pw) False now")
  with assms None have "r = Inl err" and "d1 = d'"
    by (cases r; simp add: register_try_def)+
  with c user_create_Inl show ?thesis by blast
qed

lemma register_catch_other:
  "(\<forall>m. err \<noteq> ConflictException m) \<Longrightarrow>
     register_catch err = BadRequestException ''Failed to register user''"
  by (cases err) simp_all

text \<open>
  C6. Registering an email that a stored user already has fails with the conflict
  ``Email already exists'' and leaves the store as it was. The handler rethrows a
  conflict unchanged and turns every other error into the bad request ``Failed to
  register user''; so a failed registration is one of these two errors, and whenever the
  store rejects the insert the caller sees the bad request. No failed registration
  creates a user row.
\<close>

theorem register_duplicate_email:
  "(mail \<in> set (map u_email (users d)) \<longrightarrow>
      register e d mail un pw salt now = (Inl (ConflictException ''Email already exists''), d)) \<and>
   (\<forall>m. register_catch (ConflictException m) = ConflictException m) \<and>
   (\<forall>err. (\<forall>m. err \<noteq> ConflictException m) \<longrightarrow>
      register_catch err = BadRequestException ''Failed to register user'') \<and>
   (\<forall>err d'. register e d mail un pw salt now = (Inl err, d') \<longrightarrow>
      (err = ConflictException ''Email already exists'' \<or>
       err = BadRequestException ''Failed to register user'') \<and>
      users d' = users d \<and> userTokens d' = userTokens d) \<and>
   (\<forall>err d'. mail \<notin> set (map u_email (users d)) \<and>
      prisma_user_create d mail un (argon2_hash e salt pw) False now = (Inl err, d') \<longrightarrow>
      register e d mail un pw salt now = (Inl (BadRequestException ''Failed to register user''), d'))"
proof (intro conjI allI impI)
  show "register e d mail un pw salt now = (Inl (ConflictException ''Email already exists''), d)"
    if "mail \<in> set (map u_email (users d))"
    using register_try_existing_email [OF that] by (simp add: register_def)
next
  fix m show "register_catch (ConflictException m) = ConflictException m" by simp
next
  fix err assume "\<forall>m. err \<noteq> ConflictException m"
  then show "register_catch err = BadRequestException ''Failed to register user''"
    by (rule register_catch_other)
next
  fix err d'
  assume r: "register e d mail un pw salt now = (Inl err, d')"
  obtain x d1 where t: "register_try e d mail un pw salt now = (x, d1)"
    by (cases "register_try e d mail un pw salt now")
  with r obtain err0 where x: "x = Inl err0" and e: "err = register_catch err0" and d: "d1 = d'"
    by (cases x) (auto simp: register_def)
  from t x d register_try_Inl [of e d mail un pw salt now err0 d']
  have k: "err0 = ConflictException ''Email already exists'' \<and> d' = d \<or>
        err0 = PrismaError ''P2002'' \<and> d' = d\<lparr>users_seq := users_seq d + 1\<rparr>"
    by simp
  with e show "err = ConflictException ''Email already exists'' \<or>
       err = BadRequestException ''Failed to register user''"
    by auto
  from k show "users d' = users d" by auto
  from k show "userTokens d' = userTokens d" by auto
next
  fix err d'
  assume "mail \<notin> set (map u_email (users d)) \<and>
      prisma_user_create d mail un (argon2_hash e salt pw) False now = (Inl err, d')"
  then have n: "prisma_user_findUnique_email d mail = None"
    and c: "prisma_user_create d mail un (argon2_hash e salt pw) False now = (Inl err, d')"
    using user_findUnique_email_None by blast+
  from user_create_Inl [OF c] have "err = PrismaError ''P2002''" by simp
  with n c show "register e d mail un pw salt now =
      (Inl (BadRequestException ''Failed to register user''), d')"
    by (simp add: register_def register_try_def)
qed

text \<open>
  On the example store: Alice's email again, and a new email with Alice's user name,
  which the store rejects.
\<close>

theorem register_duplicate_email_witness:
  "''a@x.com'' \<in> set (map u_email (users example_db)) \<and>
   register (example_env example_config) example_db ''a@x.com'' ''carol'' ''Abc123'' ''s'' 5000 =
     (Inl (ConflictException ''Email already exists''), example_db) \<and>
   (\<forall>m. PrismaError ''P2002'' \<noteq> ConflictException m) \<and>
   register_catch (PrismaError ''P2002'') = BadRequestException ''Failed to register user'' \<and>
   ''c@x.com'' \<notin> set (map u_email (users example_db)) \<and>
   prisma_user_create example_db ''c@x.com'' ''alice''
       (argon2_hash (example_env example_config) ''s'' ''Abc123'') False 5000 =
     (Inl (PrismaError ''P2002''), example_db\<lparr>users_seq := 4\<rparr>) \<and>
   register (example_env example_config) example_db ''c@x.com'' ''alice'' ''Abc123'' ''s'' 5000 =
     (Inl (BadRequestException ''Failed to register user''), example_db\<lparr>users_seq := 4\<rparr>)"
proof -
  note t = register_duplicate_email [where e = "example_env example_config" and d = example_db
      and pw = "''Abc123''" and salt = "''s''" and now = 5000]
  have a: "''a@x.com'' \<in> set (map u_email (users example_db))"
    by (simp add: example_defs)
  have b: "\<forall>m. PrismaError ''P2002'' \<noteq> ConflictException m"
    by simp
  have c: "''c@x.com'' \<notin> set (map u_email (users example_db))"
    by (simp add: example_defs)
  have c': "prisma_user_create example_db ''c@x.com'' ''alice''
       (argon2_hash (example_env example_config) ''s'' ''Abc123'') False 5000 =
     (Inl (PrismaError ''P2002''), example_db\<lparr>users_seq := 4\<rparr>)"
    by (simp add: store_defs example_defs)
  from t [of "''a@x.com''" "''carol''"] a
  have A: "register (example_env example_config) example_db ''a@x.com'' ''carol'' ''Abc123'' ''s'' 5000 =
     (Inl (ConflictException ''Email already exists''), example_db)"
    by blast
  from t [of "''a@x.com''" "''carol''"] b
  have B: "register_catch (PrismaError ''P2002'') = BadRequestException ''Failed to register user''"
    by blast
  from t [of "''c@x.com''" "''alice''"] c c'
  have D: "register (example_env example_config) example_db ''c@x.com'' ''alice'' ''Abc123'' ''s'' 5000 =
     (Inl (BadRequestException ''Failed to register user''), example_db\<lparr>users_seq := 4\<rparr>)"
    by blast
  from a b c c' A B D show ?thesis by (intro conjI)
qed

text \<open>
  C9. Registering a new email with a user name that a stored user already has fails
  with the bad request ``Failed to register user'', not with a conflict: the check
  before the insert looks at the email only, the store rejects the insert on the
  user-name index, and the handler downgrades that error. No user row is created.
\<close>

theorem register_duplicate_username:
  assumes "mail \<notin> set (map u_email (users d))" and "un \<in> set (map u_username (users d))"
  shows "fst (register_try e d mail un pw salt now) = Inl (PrismaError ''P2002'') \<and>
         fst (register e d mail un pw salt now) = Inl (BadRequestException ''Failed to register user'') \<and>
         users (snd (register e d mail un pw salt now)) = users d \<and>
         userTokens (snd (register e d mail un pw salt now)) = userTokens d"
proof -
  from assms(1) have n: "prisma_user_findUnique_email d mail = None"
    using user_findUnique_email_None by blast
  have c: "prisma_user_create d mail un (argon2_hash e salt pw) False now =
            (Inl (PrismaError ''P2002''), d\<lparr>users_seq := users_seq d + 1\<rparr>)"
    using assms by (simp add: prisma_user_create_def Let_def)
  from n c have "register_try e d mail un pw salt now =
      (Inl (PrismaError ''P2002''), d\<lparr>users_seq := users_seq d + 1\<rparr>)"
    by (simp add: register_try_def)
  then show ?thesis by (simp add: register_def)
qed

text \<open>On the example store: a new email with Alice's user name.\<close>

theorem register_duplicate_username_witness:
  "''c@x.com'' \<notin> set (map u_email (users example_db)) \<and>
   ''alice'' \<in> set (map u_username (users example_db)) \<and>
   fst (register (example_env example_config) example_db ''c@x.com'' ''alice'' ''Abc123'' ''s'' 5000) =
     Inl (BadRequestException ''Failed to register user'') \<and>
   users (snd (register (example_env example_config) example_db ''c@x.com'' ''alice'' ''Abc123'' ''s'' 5000))
     = users example_db"
proof -
  have a: "''c@x.com'' \<notin> set (map u_email (users example_db))"
    by (simp add: example_defs)
  have b: "''alice'' \<in> set (map u_username (users example_db))"
    by (simp add: example_defs)
  from register_duplicate_username [OF a b, of "example_env example_config" "''Abc123''" "''s''" 5000]
  have "fst (register (example_env example_config) example_db ''c@x.com'' ''alice'' ''Abc123'' ''s'' 5000) =
     Inl (BadRequestException ''Failed to register user'')"
   and "users (snd (register (example_env example_config) example_db ''c@x.com'' ''alice'' ''Abc123'' ''s'' 5000))
     = users example_db"
    by blast+
  with a b show ?thesis by (intro conjI)
qed

section \<open>The access-token strategy re-validates the subject\<close>

lemma find_map_key:
  "(\<And>x. f (g x) = f x) \<Longrightarrow> find (\<lambda>y. f y = k) (map g xs) = map_option g (find (\<lambda>y. f y = k) xs)"
  by (induction xs) auto

lemma user_findUnique_id_None:
  "prisma_user_findUnique_id d i = None \<longleftrightarrow> i \<notin> set (map u_id (users d))"
  by (simp only: prisma_user_findUnique_id_def find_None_key)

lemma user_findUnique_id_Some:
  "distinct (map u_id (users d)) \<Longrightarrow> u \<in> set (users d) \<Longrightarrow>
     prisma_user_findUnique_id d (u_id u) = Some u"
  by (simp only: prisma_user_findUnique_id_def find_distinct_key)

lemma user_findUnique_id_SomeD:
  "prisma_user_findUnique_id d i = Some u \<Longrightarrow> u \<in> set (users d) \<and> u_id u = i"
  unfolding prisma_user_findUnique_id_def by (rule find_Some_key)

lemma validate_Inr:
  assumes "validate d p = Inr ident"
  shows "\<exists>u \<in> set (users d). u_id u = sub p \<and> \<not> u_isLocked u \<and>
           ident = \<lparr>cu_id = u_id u, cu_username = u_username u, cu_email = u_email u\<rparr>"
proof (cases "prisma_user_findUnique_id d (sub p)")
  case None
  with assms show ?thesis by (simp add: validate_def)
next
  case (Some u)
  with assms have "\<not> u_isLocked u"
    and "ident = \<lparr>cu_id = u_id u, cu_username = u_username u, cu_email = u_email u\<rparr>"
    by (auto simp: validate_def split: if_splits)
  with user_findUnique_id_SomeD [OF Some] show ?thesis by blast
qed

lemma validate_password_independent:
  "validate (d\<lparr>users := map (\<lambda>u. u\<lparr>u_password := f u\<rparr>) (users d)\<rparr>) p = validate d p"
proof -
  have "find (\<lambda>u. u_id u = sub p) (map (\<lambda>u. u\<lparr>u_password := f u\<rparr>) (users d)) =
        map_option (\<lambda>u. u\<lparr>u_password := f u\<rparr>) (find (\<lambda>u. u_id u = sub p) (users d))"
    by (rule find_map_key) simp
  then show ?thesis
    by (cases "find (\<lambda>u. u_id u = sub p) (users d)")
       (simp_all add: validate_def prisma_user_findUnique_id_def)
qed

text \<open>
  C8. \<open>validate\<close> receives the payload of an access token that has already passed
  signature and expiry verification, and still looks the subject up by id. It rejects as
  unauthorized when no stored user has that id and when the user with that id is locked.
  It accepts exactly an unlocked stored user, and what it returns is that user's id,
  user name and email and nothing else: the result has no other field and does not
  change when the stored password hashes are replaced by any others.
\<close>

theorem validate_rechecks_user:
  "(sub p \<notin> set (map u_id (users d)) \<longrightarrow>
      validate d p = Inl (UnauthorizedException ''User not found'')) \<and>
   (distinct (map u_id (users d)) \<longrightarrow>
      (\<forall>u \<in> set (users d). u_id u = sub p \<longrightarrow>
         validate d p =
           (if u_isLocked u then Inl (UnauthorizedException ''Account is locked'')
            else Inr \<lparr>cu_id = u_id u, cu_username = u_username u, cu_email = u_email u\<rparr>))) \<and>
   (\<forall>ident. validate d p = Inr ident \<longrightarrow>
      (\<exists>u \<in> set (users d). u_id u = sub p \<and> \<not> u_isLocked u \<and>
         ident = \<lparr>cu_id = u_id u, cu_username = u_username u, cu_email = u_email u\<rparr>)) \<and>
   (\<forall>f. validate (d\<lparr>users := map (\<lambda>u. u\<lparr>u_password := f u\<rparr>) (users d)\<rparr>) p = validate d p)"
proof (intro conjI allI impI ballI)
  assume "sub p \<notin> set (map u_id (users d))"
  then show "validate d p = Inl (UnauthorizedException ''User not found'')"
    using user_findUnique_id_None [of d "sub p"] by (simp add: validate_def)
next
  fix u
  assume "distinct (map u_id (users d))" and "u \<in> set (users d)" and "u_id u = sub p"
  then have "prisma_user_findUnique_id d (sub p) = Some u"
    using user_findUnique_id_Some by metis
  then show "validate d p =
           (if u_isLocked u then Inl (UnauthorizedException ''Account is locked'')
            else Inr \<lparr>cu_id = u_id u, cu_username = u_username u, cu_email = u_email u\<rparr>)"
    by (simp add: validate_def)
next
  fix ident
  assume "validate d p = Inr ident"
  then show "\<exists>u \<in> set (users d). u_id u = sub p \<and> \<not> u_isLocked u \<and>
         ident = \<lparr>cu_id = u_id u, cu_username = u_username u, cu_email = u_email u\<rparr>"
    by (rule validate_Inr)
next
  fix f
  show "validate (d\<lparr>users := map (\<lambda>u. u\<lparr>u_password := f u\<rparr>) (users d)\<rparr>) p = validate d p"
    by (rule validate_password_independent)
qed

text \<open>
  On the example store: a payload naming no user, Bob's (locked) and Alice's (accepted).
\<close>

theorem validate_rechecks_user_witness:
  "sub \<lparr>sub = 7, username = ''eve'', email = ''e@x.com''\<rparr> \<notin> set (map u_id (users example_db)) \<and>
   validate example_db \<lparr>sub = 7, username = ''eve'', email = ''e@x.com''\<rparr> =
     Inl (UnauthorizedException ''User not found'') \<and>
   distinct (map u_id (users example_db)) \<and>
   bob \<in> set (users example_db) \<and>
   u_id bob = sub \<lparr>sub = 2, username = ''bob'', email = ''b@x.com''\<rparr> \<and>
   validate example_db \<lparr>sub = 2, username = ''bob'', email = ''b@x.com''\<rparr> =
     (if u_isLocked bob then Inl (UnauthorizedException ''Account is locked'')
      else Inr \<lparr>cu_id = u_id bob, cu_username = u_username bob, cu_email = u_email bob\<rparr>) \<and>
   validate example_db \<lparr>sub = 1, username = ''alice'', email = ''a@x.com''\<rparr> =
     Inr \<lparr>cu_id = 1, cu_username = ''alice'', cu_email = ''a@x.com''\<rparr> \<and>
   (\<exists>u \<in> set (users example_db).
      u_id u = sub \<lparr>sub = 1, username = ''alice'', email = ''a@x.com''\<rparr> \<and> \<not> u_isLocked u \<and>
      \<lparr>cu_id = 1, cu_username = ''alice'', cu_email = ''a@x.com''\<rparr> =
        \<lparr>cu_id = u_id u, cu_username = u_username u, cu_email = u_email u\<rparr>)"
proof -
  note t = validate_rechecks_user [where d = example_db]
  have a: "sub \<lparr>sub = 7, username = ''eve'', email = ''e@x.com''\<rparr> \<notin> set (map u_id (users example_db))"
    by (simp add: example_defs)
  have b: "distinct (map u_id (users example_db))" "bob \<in> set (users example_db)"
    "u_id bob = sub \<lparr>sub = 2, username = ''bob'', email = ''b@x.com''\<rparr>"
    by (simp_all add: example_defs)
  have c: "validate example_db \<lparr>sub = 1, username = ''alice'', email = ''a@x.com''\<rparr> =
     Inr \<lparr>cu_id = 1, cu_username = ''alice'', cu_email = ''a@x.com''\<rparr>"
    by (simp add: validate_def store_defs example_defs)
  from t [of "\<lparr>sub = 7, username = ''eve'', email = ''e@x.com''\<rparr>"] a
  have A: "validate example_db \<lparr>sub = 7, username = ''eve'', email = ''e@x.com''\<rparr> =
     Inl (UnauthorizedException ''User not found'')"
    by blast
  from t [of "\<lparr>sub = 2, username = ''bob'', email = ''b@x.com''\<rparr>"] b
  have B: "validate example_db \<lparr>sub = 2, username = ''bob'', email = ''b@x.com''\<rparr> =
     (if u_isLocked bob then Inl (UnauthorizedException ''Account is locked'')
      else Inr \<lparr>cu_id = u_id bob, cu_username = u_username bob, cu_email = u_email bob\<rparr>)"
    by blast
  from t [of "\<lparr>sub = 1, username = ''alice'', email = ''a@x.com''\<rparr>"] c
  have C: "\<exists>u \<in> set (users example_db).
      u_id u = sub \<lparr>sub = 1, username = ''alice'', email = ''a@x.com''\<rparr> \<and> \<not> u_isLocked u \<and>
      \<lparr>cu_id = 1, cu_username = ''alice'', cu_email = ''a@x.com''\<rparr> =
        \<lparr>cu_id = u_id u, cu_username = u_username u, cu_email = u_email u\<rparr>"
    by blast
  from a b c A B C show ?thesis by (intro conjI)
qed

section \<open>Password change revokes every session of the user\<close>






section \<open>Refresh does not look at the lock\<close>

lemma refreshTokens_success:
  assumes f: "prisma_userTokens_findUnique d tok = Some (row, Some u)"
    and ne: "\<not> now > t_expiresAt row"
    and v: "verifyAsync e tok (config_or e ''JWT_REFRESH_SECRET'' ''your-refresh-secret'') now \<noteq> None"
    and free: "\<forall>r \<in> set (userTokens d).
        t_refreshToken r = refreshToken (generateTokens e (u_id u) (u_username u) (u_email u) now)
          \<longrightarrow> t_id r = t_id row"
  shows "refreshTokens e d tok now =
           (Inr \<lparr>success = True, message = ''Tokens refreshed successfully'',
                 data = generateTokens e (u_id u) (u_username u) (u_email u) now\<rparr>,
            d\<lparr>userTokens :=
                map (\<lambda>r. if t_id r = t_id row
                          then r\<lparr>t_refreshToken :=
                                    refreshToken (generateTokens e (u_id u) (u_username u) (u_email u) now),
                                  t_lastUsedAt := now,
                                  t_expiresAt := now + 7 * 24 * 60 * 60 * 1000,
                                  t_updatedAt := now\<rparr>
                          else r) (userTokens d)\<rparr>)"
proof -
  from f have "row \<in> set (userTokens d)"
    using userTokens_findUnique_Some by blast
  then have "t_id row \<in> set (map t_id (userTokens d))" by simp
  with free have "prisma_userTokens_update d (t_id row)
      (refreshToken (generateTokens e (u_id u) (u_username u) (u_email u) now))
      now (now + 7 * 24 * 60 * 60 * 1000) now =
    (Inr (), d\<lparr>userTokens :=
                map (\<lambda>r. if t_id r = t_id row
                          then r\<lparr>t_refreshToken :=
                                    refreshToken (generateTokens e (u_id u) (u_username u) (u_email u) now),
                                  t_lastUsedAt := now,
                                  t_expiresAt := now + 7 * 24 * 60 * 60 * 1000,
                                  t_updatedAt := now\<rparr>
                          else r) (userTokens d)\<rparr>)"
    unfolding prisma_userTokens_update_def by auto
  with f ne v show ?thesis
    by (cases "verifyAsync e tok (config_or e ''JWT_REFRESH_SECRET'' ''your-refresh-secret'') now")
       (simp_all add: refreshTokens_def Let_def)
qed








section \<open>Refresh: the rotated-out token\<close>

text \<open>
  The store a successful refresh leaves: the session row found by the old token now
  carries the new one, and is the only row that does.
\<close>

lemma refreshTokens_Inr_rotated:
  assumes ok: "refreshTokens e d tok now = (Inr res, d')"
    and pk: "distinct (map t_id (userTokens d))"
  obtains row user where
    "row \<in> set (userTokens d)" "t_refreshToken row = tok"
    "prisma_user_findUnique_id d (t_userId row) = Some user"
    "users d' = users d"
    "userTokens d' =
       map (\<lambda>r. if t_id r = t_id row
                 then r\<lparr>t_refreshToken := refreshToken (data res), t_lastUsedAt := now,
                         t_expiresAt := now + 7 * 24 * 60 * 60 * 1000, t_updatedAt := now\<rparr>
                 else r) (userTokens d)"
    "\<forall>r \<in> set (userTokens d). t_refreshToken r = refreshToken (data res) \<longrightarrow> t_id r = t_id row"
proof -
  from ok obtain row user where
    f: "find (\<lambda>r. t_refreshToken r = tok) (userTokens d) = Some row"
    and u: "prisma_user_findUnique_id d (t_userId row) = Some user"
    and up: "prisma_userTokens_update d (t_id row) (refreshToken (data res)) now
              (now + 7 * 24 * 60 * 60 * 1000) now = (Inr (), d')"
    by (rule refreshTokens_Inr)
  from f have "row \<in> set (userTokens d)" "t_refreshToken row = tok"
    using find_Some_key by fastforce+
  moreover note u
  moreover from userTokens_update_Inr(3) [OF up] have "users d' = users d" by simp
  moreover from userTokens_update_Inr(3) [OF up] have "userTokens d' =
       map (\<lambda>r. if t_id r = t_id row
                 then r\<lparr>t_refreshToken := refreshToken (data res), t_lastUsedAt := now,
                         t_expiresAt := now + 7 * 24 * 60 * 60 * 1000, t_updatedAt := now\<rparr>
                 else r) (userTokens d)" by simp
  moreover note userTokens_update_Inr(2) [OF up]
  ultimately show thesis by (rule that)
qed

lemma rotated_out_absent:
  assumes ok: "refreshTokens e d tok now = (Inr res, d')"
    and pk: "distinct (map t_id (userTokens d))"
    and uq: "distinct (map t_refreshToken (userTokens d))"
    and new: "refreshToken (data res) \<noteq> tok"
  shows "tok \<notin> set (map t_refreshToken (userTokens d'))"
proof
  assume "tok \<in> set (map t_refreshToken (userTokens d'))"
  from ok pk obtain row where row: "row \<in> set (userTokens d)" "t_refreshToken row = tok"
    and d': "userTokens d' =
       map (\<lambda>r. if t_id r = t_id row
                 then r\<lparr>t_refreshToken := refreshToken (data res), t_lastUsedAt := now,
                         t_expiresAt := now + 7 * 24 * 60 * 60 * 1000, t_updatedAt := now\<rparr>
                 else r) (userTokens d)"
    by (rule refreshTokens_Inr_rotated)
  from \<open>tok \<in> set (map t_refreshToken (userTokens d'))\<close> d' new
  obtain r where r: "r \<in> set (userTokens d)" "t_id r \<noteq> t_id row" "t_refreshToken r = tok"
    by (auto split: if_splits)
  from uq have "inj_on t_refreshToken (set (userTokens d))" by (simp add: distinct_map)
  with r row have "r = row" by (auto dest: inj_onD)
  with r show False by simp
qed

lemma rotated_in_found:
  assumes ok: "refreshTokens e d tok now = (Inr res, d')"
    and pk: "distinct (map t_id (userTokens d))"
  obtains row user where
    "row \<in> set (userTokens d)"
    "prisma_userTokens_findUnique d' (refreshToken (data res)) =
       Some (row\<lparr>t_refreshToken := refreshToken (data res), t_lastUsedAt := now,
                  t_expiresAt := now + 7 * 24 * 60 * 60 * 1000, t_updatedAt := now\<rparr>, Some user)"
    "user \<in> set (users d')"
    "\<forall>r \<in> set (userTokens d'). t_refreshToken r = refreshToken (data res) \<longrightarrow> t_id r = t_id row"
proof -
  let ?new = "refreshToken (data res)"
  from ok pk obtain row user where row: "row \<in> set (userTokens d)"
    and u: "prisma_user_findUnique_id d (t_userId row) = Some user"
    and us: "users d' = users d"
    and d': "userTokens d' =
       map (\<lambda>r. if t_id r = t_id row
                 then r\<lparr>t_refreshToken := ?new, t_lastUsedAt := now,
                         t_expiresAt := now + 7 * 24 * 60 * 60 * 1000, t_updatedAt := now\<rparr>
                 else r) (userTokens d)"
    and only: "\<forall>r \<in> set (userTokens d). t_refreshToken r = ?new \<longrightarrow> t_id r = t_id row"
    by (rule refreshTokens_Inr_rotated)
  let ?row' = "row\<lparr>t_refreshToken := ?new, t_lastUsedAt := now,
                  t_expiresAt := now + 7 * 24 * 60 * 60 * 1000, t_updatedAt := now\<rparr>"
  from pk have inj: "inj_on t_id (set (userTokens d))" by (simp add: distinct_map)
  have same: "r = row" if "r \<in> set (userTokens d)" "t_id r = t_id row" for r
    using inj that row by (auto dest: inj_onD)
  have all: "\<forall>r \<in> set (userTokens d'). t_refreshToken r = ?new \<longrightarrow> r = ?row'"
    unfolding d' using only same by (auto split: if_splits)
  have "?row' \<in> set (userTokens d')"
    unfolding d' using row by (auto simp: image_iff intro!: bexI [of _ row])
  then have "find (\<lambda>r. t_refreshToken r = ?new) (userTokens d') \<noteq> None"
    by (auto simp: find_None_iff)
  then obtain r' where r': "find (\<lambda>r. t_refreshToken r = ?new) (userTokens d') = Some r'"
    by blast
  with all have "r' = ?row'"
    using find_Some_key by fastforce
  with r' have f: "find (\<lambda>r. t_refreshToken r = ?new) (userTokens d') = Some ?row'" by simp
  from u us have u': "prisma_user_findUnique_id d' (t_userId ?row') = Some user"
    by (simp add: prisma_user_findUnique_id_def)
  from f u' have "prisma_userTokens_findUnique d' ?new = Some (?row', Some user)"
    by (simp add: prisma_userTokens_findUnique_def)
  moreover from u' have "user \<in> set (users d')"
    using user_findUnique_id_SomeD by blast
  moreover from all have "\<forall>r \<in> set (userTokens d'). t_refreshToken r = ?new \<longrightarrow> t_id r = t_id row"
    by auto
  ultimately show thesis using row that by blast
qed


text \<open>
  C2, as the code has it. Let a refresh of token \<open>tok\<close> succeed and return a refresh
  token different from \<open>tok\<close> (primary keys and token values being unique). Then no
  session row of the resulting store holds \<open>tok\<close>, and presenting \<open>tok\<close> to that store
  again is refused as unauthorized (``Invalid refresh token'') at any time. The returned
  token is held by a session row of a stored user. Presenting it to that store succeeds,
  returning the pair signed then for that user and rewriting that row, provided it comes
  no later than seven days after the rotation, it verifies, and the refresh token signed
  at that moment for that user is not held by another session row. The rotated-out token
  stays refused in every store that further calls of the service lead to, as long as the
  codec does not sign that very string again at the time of one of those calls.
\<close>

theorem refreshTokens_rotated_out:
  assumes ok: "refreshTokens e d tok now = (Inr res, d')"
    and pk: "distinct (map t_id (userTokens d))"
    and uq: "distinct (map t_refreshToken (userTokens d))"
    and new: "refreshToken (data res) \<noteq> tok"
  shows "tok \<notin> set (map t_refreshToken (userTokens d')) \<and>
         (\<forall>now'. refreshTokens e d' tok now' =
            (Inl (UnauthorizedException ''Invalid refresh token''), d')) \<and>
         (\<exists>row u. prisma_userTokens_findUnique d' (refreshToken (data res)) = Some (row, Some u)) \<and>
         (\<forall>row u now'.
            prisma_userTokens_findUnique d' (refreshToken (data res)) = Some (row, Some u) \<and>
            now' \<le> now + 7 * 24 * 60 * 60 * 1000 \<and>
            verifyAsync e (refreshToken (data res))
              (config_or e ''JWT_REFRESH_SECRET'' ''your-refresh-secret'') now' \<noteq> None \<and>
            (\<forall>r \<in> set (userTokens d'). t_id r \<noteq> t_id row \<longrightarrow>
               t_refreshToken r \<noteq>
                 signAsync e \<lparr>sub = u_id u, username = u_username u, email = u_email u\<rparr>
                    (config_or e ''JWT_REFRESH_SECRET'' ''your-refresh-secret'')
                    (config_or e ''JWT_REFRESH_EXPIRES_IN'' ''7d'') now')
            \<longrightarrow> (\<exists>x. refreshTokens e d' (refreshToken (data res)) now' =
              (Inr \<lparr>success = True, message = ''Tokens refreshed successfully'',
                    data =
                      \<lparr>accessToken =
                         signAsync e \<lparr>sub = u_id u, username = u_username u, email = u_email u\<rparr>
                           (config_or e ''JWT_SECRET'' ''your-secret-jwt-key'')
                           (config_or e ''JWT_EXPIRES_IN'' ''15m'') now',
                       refreshToken =
                         signAsync e \<lparr>sub = u_id u, username = u_username u, email = u_email u\<rparr>
                           (config_or e ''JWT_REFRESH_SECRET'' ''your-refresh-secret'')
                           (config_or e ''JWT_REFRESH_EXPIRES_IN'' ''7d'') now'\<rparr>\<rparr>,
               d'\<lparr>userTokens :=
                   map (\<lambda>r. if t_id r = t_id row
                             then r\<lparr>t_refreshToken :=
                                       signAsync e
                                         \<lparr>sub = u_id u, username = u_username u, email = u_email u\<rparr>
                                         (config_or e ''JWT_REFRESH_SECRET'' ''your-refresh-secret'')
                                         (config_or e ''JWT_REFRESH_EXPIRES_IN'' ''7d'') now',
                                     t_lastUsedAt := now', t_expiresAt := x,
                                     t_updatedAt := now'\<rparr>
                             else r) (userTokens d')\<rparr>))) \<and>
         (\<forall>cs. (\<forall>(c, t) \<in> set cs. \<forall>p s x. signAsync e p s x t \<noteq> tok) \<longrightarrow>
            tok \<notin> set (map t_refreshToken (userTokens (run e d' cs))) \<and>
            (\<forall>now'. refreshTokens e (run e d' cs) tok now' =
               (Inl (UnauthorizedException ''Invalid refresh token''), run e d' cs)))"
proof -
  have absent: "tok \<notin> set (map t_refreshToken (userTokens d'))"
    using ok pk uq new by (rule rotated_out_absent)
  have refused: "refreshTokens e d0 tok now' =
      (Inl (UnauthorizedException ''Invalid refresh token''), d0)"
    if "tok \<notin> set (map t_refreshToken (userTokens d0))" for d0 now'
    using that userTokens_findUnique_None refreshTokens_absent by blast
  have runs: "tok \<notin> set (map t_refreshToken (userTokens (run e d' cs)))"
    if "\<forall>(c, t) \<in> set cs. \<forall>p s x. signAsync e p s x t \<noteq> tok" for cs
    using absent that by (rule run_keeps_absent)
  from ok pk obtain row0 user where
    found: "prisma_userTokens_findUnique d' (refreshToken (data res)) =
       Some (row0\<lparr>t_refreshToken := refreshToken (data res), t_lastUsedAt := now,
                  t_expiresAt := now + 7 * 24 * 60 * 60 * 1000, t_updatedAt := now\<rparr>, Some user)"
    by (rule rotated_in_found)
  then have held: "\<exists>row u. prisma_userTokens_findUnique d' (refreshToken (data res)) =
      Some (row, Some u)"
    by blast
  have later: "refreshTokens e d' (refreshToken (data res)) now' =
              (Inr \<lparr>success = True, message = ''Tokens refreshed successfully'',
                    data =
                      \<lparr>accessToken =
                         signAsync e \<lparr>sub = u_id u, username = u_username u, email = u_email u\<rparr>
                           (config_or e ''JWT_SECRET'' ''your-secret-jwt-key'')
                           (config_or e ''JWT_EXPIRES_IN'' ''15m'') now',
                       refreshToken =
                         signAsync e \<lparr>sub = u_id u, username = u_username u, email = u_email u\<rparr>
                           (config_or e ''JWT_REFRESH_SECRET'' ''your-refresh-secret'')
                           (config_or e ''JWT_REFRESH_EXPIRES_IN'' ''7d'') now'\<rparr>\<rparr>,
               d'\<lparr>userTokens :=
                   map (\<lambda>r. if t_id r = t_id row
                             then r\<lparr>t_refreshToken :=
                                       signAsync e
                                         \<lparr>sub = u_id u, username = u_username u, email = u_email u\<rparr>
                                         (config_or e ''JWT_REFRESH_SECRET'' ''your-refresh-secret'')
                                         (config_or e ''JWT_REFRESH_EXPIRES_IN'' ''7d'') now',
                                     t_lastUsedAt := now', t_expiresAt := now' + 7 * 24 * 60 * 60 * 1000,
                                     t_updatedAt := now'\<rparr>
                             else r) (userTokens d')\<rparr>)"
    if h: "prisma_userTokens_findUnique d' (refreshToken (data res)) = Some (row, Some u) \<and>
            now' \<le> now + 7 * 24 * 60 * 60 * 1000 \<and>
            verifyAsync e (refreshToken (data res))
              (config_or e ''JWT_REFRESH_SECRET'' ''your-refresh-secret'') now' \<noteq> None \<and>
            (\<forall>r \<in> set (userTokens d'). t_id r \<noteq> t_id row \<longrightarrow>
               t_refreshToken r \<noteq>
                 signAsync e \<lparr>sub = u_id u, username = u_username u, email = u_email u\<rparr>
                    (config_or e ''JWT_REFRESH_SECRET'' ''your-refresh-secret'')
                    (config_or e ''JWT_REFRESH_EXPIRES_IN'' ''7d'') now')" for row u now'
  proof -
    from h have f: "prisma_userTokens_findUnique d' (refreshToken (data res)) = Some (row, Some u)"
      by simp
    with found have "t_expiresAt row = now + 7 * 24 * 60 * 60 * 1000"
      by auto
    with h have ne: "\<not> now' > t_expiresAt row"
      by simp
    from h have v: "verifyAsync e (refreshToken (data res))
                (config_or e ''JWT_REFRESH_SECRET'' ''your-refresh-secret'') now' \<noteq> None"
      by simp
    from h have free: "\<forall>r \<in> set (userTokens d').
        t_refreshToken r = refreshToken (generateTokens e (u_id u) (u_username u) (u_email u) now')
          \<longrightarrow> t_id r = t_id row"
      by (auto simp: generateTokens_signs)
    from refreshTokens_success [OF f ne v free] show ?thesis
      by (simp add: generateTokens_signs)
  qed
  show ?thesis
  proof (intro conjI allI impI)
    show "tok \<notin> set (map t_refreshToken (userTokens d'))"
      by (rule absent)
    show "refreshTokens e d' tok now' =
        (Inl (UnauthorizedException ''Invalid refresh token''), d')" for now'
      using absent by (rule refused)
    show "\<exists>row u. prisma_userTokens_findUnique d' (refreshToken (data res)) = Some (row, Some u)"
      by (rule held)
    show "\<exists>x. refreshTokens e d' (refreshToken (data res)) now' =
              (Inr \<lparr>success = True, message = ''Tokens refreshed successfully'',
                    data =
                      \<lparr>accessToken =
                         signAsync e \<lparr>sub = u_id u, username = u_username u, email = u_email u\<rparr>
                           (config_or e ''JWT_SECRET'' ''your-secret-jwt-key'')
                           (config_or e ''JWT_EXPIRES_IN'' ''15m'') now',
                       refreshToken =
                         signAsync e \<lparr>sub = u_id u, username = u_username u, email = u_email u\<rparr>
                           (config_or e ''JWT_REFRESH_SECRET'' ''your-refresh-secret'')
                           (config_or e ''JWT_REFRESH_EXPIRES_IN'' ''7d'') now'\<rparr>\<rparr>,
               d'\<lparr>userTokens :=
                   map (\<lambda>r. if t_id r = t_id row
                             then r\<lparr>t_refreshToken :=
                                       signAsync e
                                         \<lparr>sub = u_id u, username = u_username u, email = u_email u\<rparr>
                                         (config_or e ''JWT_REFRESH_SECRET'' ''your-refresh-secret'')
                                         (config_or e ''JWT_REFRESH_EXPIRES_IN'' ''7d'') now',
                                     t_lastUsedAt := now', t_expiresAt := x,
                                     t_updatedAt := now'\<rparr>
                             else r) (userTokens d')\<rparr>)"
      if "prisma_userTokens_findUnique d' (refreshToken (data res)) = Some (row, Some u) \<and>
            now' \<le> now + 7 * 24 * 60 * 60 * 1000 \<and>
            verifyAsync e (refreshToken (data res))
              (config_or e ''JWT_REFRESH_SECRET'' ''your-refresh-secret'') now' \<noteq> None \<and>
            (\<forall>r \<in> set (userTokens d'). t_id r \<noteq> t_id row \<longrightarrow>
               t_refreshToken r \<noteq>
                 signAsync e \<lparr>sub = u_id u, username = u_username u, email = u_email u\<rparr>
                    (config_or e ''JWT_REFRESH_SECRET'' ''your-refresh-secret'')
                    (config_or e ''JWT_REFRESH_EXPIRES_IN'' ''7d'') now')" for row u now'
      by (rule exI [where x = "now' + 7 * 24 * 60 * 60 * 1000"]) (rule later [OF that])
    show "tok \<notin> set (map t_refreshToken (userTokens (run e d' cs)))"
      if "\<forall>(c, t) \<in> set cs. \<forall>p s x. signAsync e p s x t \<noteq> tok" for cs
      using that by (rule runs)
    show "refreshTokens e (run e d' cs) tok now' =
        (Inl (UnauthorizedException ''Invalid refresh token''), run e d' cs)"
      if "\<forall>(c, t) \<in> set cs. \<forall>p s x. signAsync e p s x t \<noteq> tok" for cs now'
      using runs [OF that] by (rule refused)
  qed
qed

text \<open>
  On the example store: Alice's session is refreshed at time 2500, one second after it
  was opened; the old token is then refused and the new one accepted at time 4000. The
  old token is still refused at time 7000, after Alice has logged in again at time 5000
  and the new token has been refreshed at time 6000.
\<close>

theorem refreshTokens_rotated_out_witness:
  "refreshTokens (example_env example_config) example_db ''rs.a@x.com.7d.1'' 2500 =
     (Inr \<lparr>success = True, message = ''Tokens refreshed successfully'',
           data = \<lparr>accessToken = ''as.a@x.com.15m.11'', refreshToken = ''rs.a@x.com.7d.11''\<rparr>\<rparr>,
      example_db\<lparr>userTokens := [session 1 1 ''rs.a@x.com.7d.11'' 2500,
                                session 2 2 ''rs.b@x.com.7d.1'' 1000,
                                session 3 1 ''forged'' 1000]\<rparr>) \<and>
   distinct (map t_id (userTokens example_db)) \<and>
   distinct (map t_refreshToken (userTokens example_db)) \<and>
   ''rs.a@x.com.7d.11'' \<noteq> ''rs.a@x.com.7d.1'' \<and>
   refreshTokens (example_env example_config)
       (example_db\<lparr>userTokens := [session 1 1 ''rs.a@x.com.7d.11'' 2500,
                                session 2 2 ''rs.b@x.com.7d.1'' 1000,
                                session 3 1 ''forged'' 1000]\<rparr>) ''rs.a@x.com.7d.1'' 4000 =
     (Inl (UnauthorizedException ''Invalid refresh token''),
      example_db\<lparr>userTokens := [session 1 1 ''rs.a@x.com.7d.11'' 2500,
                                session 2 2 ''rs.b@x.com.7d.1'' 1000,
                                session 3 1 ''forged'' 1000]\<rparr>) \<and>
   prisma_userTokens_findUnique
       (example_db\<lparr>userTokens := [session 1 1 ''rs.a@x.com.7d.11'' 2500,
                                session 2 2 ''rs.b@x.com.7d.1'' 1000,
                                session 3 1 ''forged'' 1000]\<rparr>) ''rs.a@x.com.7d.11'' =
     Some (session 1 1 ''rs.a@x.com.7d.11'' 2500, Some alice) \<and>
   (4000::int) \<le> 2500 + 7 * 24 * 60 * 60 * 1000 \<and>
   verifyAsync (example_env example_config) ''rs.a@x.com.7d.11''
     (config_or (example_env example_config) ''JWT_REFRESH_SECRET'' ''your-refresh-secret'') 4000 \<noteq> None \<and>
   signAsync (example_env example_config)
       \<lparr>sub = u_id alice, username = u_username alice, email = u_email alice\<rparr>
       (config_or (example_env example_config) ''JWT_REFRESH_SECRET'' ''your-refresh-secret'')
       (config_or (example_env example_config) ''JWT_REFRESH_EXPIRES_IN'' ''7d'') 4000 =
     ''rs.a@x.com.7d.1111'' \<and>
   ''rs.a@x.com.7d.1111'' \<notin> set (map t_refreshToken
       (userTokens (example_db\<lparr>userTokens := [session 1 1 ''rs.a@x.com.7d.11'' 2500,
                                session 2 2 ''rs.b@x.com.7d.1'' 1000,
                                session 3 1 ''forged'' 1000]\<rparr>))) \<and>
   (\<exists>x. refreshTokens (example_env example_config)
       (example_db\<lparr>userTokens := [session 1 1 ''rs.a@x.com.7d.11'' 2500,
                                session 2 2 ''rs.b@x.com.7d.1'' 1000,
                                session 3 1 ''forged'' 1000]\<rparr>) ''rs.a@x.com.7d.11'' 4000 =
     (Inr \<lparr>success = True, message = ''Tokens refreshed successfully'',
           data = \<lparr>accessToken = ''as.a@x.com.15m.1111'', refreshToken = ''rs.a@x.com.7d.1111''\<rparr>\<rparr>,
      example_db\<lparr>userTokens := [(session 1 1 ''rs.a@x.com.7d.1111'' 4000)\<lparr>t_expiresAt := x\<rparr>,
                                session 2 2 ''rs.b@x.com.7d.1'' 1000,
                                session 3 1 ''forged'' 1000]\<rparr>)) \<and>
   (\<forall>p s x. signAsync (example_env example_config) p s x 5000 \<noteq> ''rs.a@x.com.7d.1'') \<and>
   (\<forall>p s x. signAsync (example_env example_config) p s x 6000 \<noteq> ''rs.a@x.com.7d.1'') \<and>
   refreshTokens (example_env example_config)
       (run (example_env example_config)
          (example_db\<lparr>userTokens := [session 1 1 ''rs.a@x.com.7d.11'' 2500,
                                session 2 2 ''rs.b@x.com.7d.1'' 1000,
                                session 3 1 ''forged'' 1000]\<rparr>)
          [(Login ''a@x.com'' ''Abc123'' ''ua'' ''ip'', 5000),
           (RefreshTokens ''rs.a@x.com.7d.11'', 6000)])
       ''rs.a@x.com.7d.1'' 7000 =
     (Inl (UnauthorizedException ''Invalid refresh token''),
      run (example_env example_config)
          (example_db\<lparr>userTokens := [session 1 1 ''rs.a@x.com.7d.11'' 2500,
                                session 2 2 ''rs.b@x.com.7d.1'' 1000,
                                session 3 1 ''forged'' 1000]\<rparr>)
          [(Login ''a@x.com'' ''Abc123'' ''ua'' ''ip'', 5000),
           (RefreshTokens ''rs.a@x.com.7d.11'', 6000)])"
proof -
  let ?e = "example_env example_config"
  let ?d' = "example_db\<lparr>userTokens := [session 1 1 ''rs.a@x.com.7d.11'' 2500,
                                session 2 2 ''rs.b@x.com.7d.1'' 1000,
                                session 3 1 ''forged'' 1000]\<rparr>"
  let ?res = "\<lparr>success = True, message = ''Tokens refreshed successfully'',
           data = \<lparr>accessToken = ''as.a@x.com.15m.11'', refreshToken = ''rs.a@x.com.7d.11''\<rparr>\<rparr>"
  have ok: "refreshTokens ?e example_db ''rs.a@x.com.7d.1'' 2500 = (Inr ?res, ?d')"
    by (simp add: refreshTokens_def generateTokens_def store_defs example_defs numeral_eq_Suc)
  have pk: "distinct (map t_id (userTokens example_db))"
    by (simp add: example_defs)
  have uq: "distinct (map t_refreshToken (userTokens example_db))"
    by (simp add: example_defs)
  have new: "refreshToken (data ?res) \<noteq> ''rs.a@x.com.7d.1''"
    by simp
  have new': "''rs.a@x.com.7d.11'' \<noteq> ''rs.a@x.com.7d.1''"
    by simp
  note t = refreshTokens_rotated_out [OF ok pk uq new]
  have A: "refreshTokens ?e ?d' ''rs.a@x.com.7d.1'' 4000 =
     (Inl (UnauthorizedException ''Invalid refresh token''), ?d')"
    by (rule t [THEN conjunct2, THEN conjunct1, THEN spec])
  have f: "prisma_userTokens_findUnique ?d' ''rs.a@x.com.7d.11'' =
     Some (session 1 1 ''rs.a@x.com.7d.11'' 2500, Some alice)"
    by (simp add: store_defs example_defs)
  have le: "(4000::int) \<le> 2500 + 7 * 24 * 60 * 60 * 1000"
    by simp
  have v: "verifyAsync ?e ''rs.a@x.com.7d.11''
     (config_or ?e ''JWT_REFRESH_SECRET'' ''your-refresh-secret'') 4000 \<noteq> None"
    by (simp add: store_defs example_defs)
  have g: "signAsync ?e \<lparr>sub = u_id alice, username = u_username alice, email = u_email alice\<rparr>
       (config_or ?e ''JWT_REFRESH_SECRET'' ''your-refresh-secret'')
       (config_or ?e ''JWT_REFRESH_EXPIRES_IN'' ''7d'') 4000 = ''rs.a@x.com.7d.1111''"
    by (simp add: store_defs example_defs numeral_eq_Suc)
  have g': "signAsync ?e \<lparr>sub = u_id alice, username = u_username alice, email = u_email alice\<rparr>
       (config_or ?e ''JWT_SECRET'' ''your-secret-jwt-key'')
       (config_or ?e ''JWT_EXPIRES_IN'' ''15m'') 4000 = ''as.a@x.com.15m.1111''"
    by (simp add: store_defs example_defs numeral_eq_Suc)
  have n: "''rs.a@x.com.7d.1111'' \<notin> set (map t_refreshToken (userTokens ?d'))"
    by (simp add: example_defs)
  have free: "\<forall>r \<in> set (userTokens ?d').
      t_id r \<noteq> t_id (session 1 1 ''rs.a@x.com.7d.11'' 2500) \<longrightarrow>
      t_refreshToken r \<noteq>
        signAsync ?e \<lparr>sub = u_id alice, username = u_username alice, email = u_email alice\<rparr>
          (config_or ?e ''JWT_REFRESH_SECRET'' ''your-refresh-secret'')
          (config_or ?e ''JWT_REFRESH_EXPIRES_IN'' ''7d'') 4000"
    by (simp add: store_defs example_defs numeral_eq_Suc)
  have m: "map (\<lambda>r. if t_id r = t_id (session 1 1 ''rs.a@x.com.7d.11'' 2500)
                     then r\<lparr>t_refreshToken := ''rs.a@x.com.7d.1111'', t_lastUsedAt := 4000,
                             t_expiresAt := x, t_updatedAt := 4000\<rparr>
                     else r) (userTokens ?d') =
      [(session 1 1 ''rs.a@x.com.7d.1111'' 4000)\<lparr>t_expiresAt := x\<rparr>,
       session 2 2 ''rs.b@x.com.7d.1'' 1000,
       session 3 1 ''forged'' 1000]" for x
    by (simp add: example_defs)
  have hyp: "prisma_userTokens_findUnique ?d' (refreshToken (data ?res)) =
        Some (session 1 1 ''rs.a@x.com.7d.11'' 2500, Some alice) \<and>
      (4000::int) \<le> 2500 + 7 * 24 * 60 * 60 * 1000 \<and>
      verifyAsync ?e (refreshToken (data ?res))
        (config_or ?e ''JWT_REFRESH_SECRET'' ''your-refresh-secret'') 4000 \<noteq> None \<and>
      (\<forall>r \<in> set (userTokens ?d').
         t_id r \<noteq> t_id (session 1 1 ''rs.a@x.com.7d.11'' 2500) \<longrightarrow>
         t_refreshToken r \<noteq>
           signAsync ?e \<lparr>sub = u_id alice, username = u_username alice, email = u_email alice\<rparr>
             (config_or ?e ''JWT_REFRESH_SECRET'' ''your-refresh-secret'')
             (config_or ?e ''JWT_REFRESH_EXPIRES_IN'' ''7d'') 4000)"
  proof (intro conjI)
    show "prisma_userTokens_findUnique ?d' (refreshToken (data ?res)) =
        Some (session 1 1 ''rs.a@x.com.7d.11'' 2500, Some alice)"
      using f by simp
    show "(4000::int) \<le> 2500 + 7 * 24 * 60 * 60 * 1000"
      by (rule le)
    show "verifyAsync ?e (refreshToken (data ?res))
        (config_or ?e ''JWT_REFRESH_SECRET'' ''your-refresh-secret'') 4000 \<noteq> None"
      using v by simp
  qed (rule free)
  from t [THEN conjunct2, THEN conjunct2, THEN conjunct2, THEN conjunct1, rule_format, OF hyp]
  have B: "\<exists>x. refreshTokens ?e ?d' ''rs.a@x.com.7d.11'' 4000 =
     (Inr \<lparr>success = True, message = ''Tokens refreshed successfully'',
           data = \<lparr>accessToken = ''as.a@x.com.15m.1111'', refreshToken = ''rs.a@x.com.7d.1111''\<rparr>\<rparr>,
      example_db\<lparr>userTokens := [(session 1 1 ''rs.a@x.com.7d.1111'' 4000)\<lparr>t_expiresAt := x\<rparr>,
                                session 2 2 ''rs.b@x.com.7d.1'' 1000,
                                session 3 1 ''forged'' 1000]\<rparr>)"
    unfolding g g' m by simp
  have fresh: "\<forall>p s x. signAsync ?e p s x t \<noteq> ''rs.a@x.com.7d.1''"
    if "t = 5000 \<or> t = 6000" for t
  proof (intro allI notI)
    fix p s x
    assume "signAsync ?e p s x t = ''rs.a@x.com.7d.1''"
    then have "take 2 (rev (signAsync ?e p s x t)) = take 2 (rev ''rs.a@x.com.7d.1'')"
      by simp
    with that show False
      by (auto simp: example_env_def numeral_eq_Suc)
  qed
  have f5: "\<forall>p s x. signAsync ?e p s x 5000 \<noteq> ''rs.a@x.com.7d.1''"
    and f6: "\<forall>p s x. signAsync ?e p s x 6000 \<noteq> ''rs.a@x.com.7d.1''"
    using fresh by simp_all
  let ?cs = "[(Login ''a@x.com'' ''Abc123'' ''ua'' ''ip'', 5000),
              (RefreshTokens ''rs.a@x.com.7d.11'', 6000)]"
  from f5 f6 have "\<forall>(c, t) \<in> set ?cs. \<forall>p s x. signAsync ?e p s x t \<noteq> ''rs.a@x.com.7d.1''"
    by simp
  with t [THEN conjunct2, THEN conjunct2, THEN conjunct2, THEN conjunct2]
  have C: "refreshTokens ?e (run ?e ?d' ?cs) ''rs.a@x.com.7d.1'' 7000 =
      (Inl (UnauthorizedException ''Invalid refresh token''), run ?e ?d' ?cs)"
    by blast
  from ok pk uq new' A f le v g n B f5 f6 C show ?thesis by (intro conjI)
qed

text \<open>
  The claim as written fails when the refresh falls into the second in which the token
  was issued: the codec then signs the same payload with the same issue time, the row
  is rewritten with the token it already held, and the same token is accepted again.
  Alice logs in at time 1000 and refreshes at 1400 and once more at 1800.
\<close>

theorem refreshTokens_same_second_counterexample:
  "login (example_env example_config) example_db0 ''a@x.com'' ''Abc123'' ''ua'' ''ip'' 1000 =
     (Inr \<lparr>success = True, message = ''User logged in successfully'',
           data = (\<lparr>cu_id = 1, cu_username = ''alice'', cu_email = ''a@x.com''\<rparr>,
                   \<lparr>accessToken = ''as.a@x.com.15m.1'', refreshToken = ''rs.a@x.com.7d.1''\<rparr>)\<rparr>,
      example_db0\<lparr>userTokens := [session 1 1 ''rs.a@x.com.7d.1'' 1000], userTokens_seq := 2\<rparr>) \<and>
   refreshTokens (example_env example_config)
       (example_db0\<lparr>userTokens := [session 1 1 ''rs.a@x.com.7d.1'' 1000], userTokens_seq := 2\<rparr>)
       ''rs.a@x.com.7d.1'' 1400 =
     (Inr \<lparr>success = True, message = ''Tokens refreshed successfully'',
           data = \<lparr>accessToken = ''as.a@x.com.15m.1'', refreshToken = ''rs.a@x.com.7d.1''\<rparr>\<rparr>,
      example_db0\<lparr>userTokens := [session 1 1 ''rs.a@x.com.7d.1'' 1400], userTokens_seq := 2\<rparr>) \<and>
   refreshTokens (example_env example_config)
       (example_db0\<lparr>userTokens := [session 1 1 ''rs.a@x.com.7d.1'' 1400], userTokens_seq := 2\<rparr>)
       ''rs.a@x.com.7d.1'' 1800 =
     (Inr \<lparr>success = True, message = ''Tokens refreshed successfully'',
           data = \<lparr>accessToken = ''as.a@x.com.15m.1'', refreshToken = ''rs.a@x.com.7d.1''\<rparr>\<rparr>,
      example_db0\<lparr>userTokens := [session 1 1 ''rs.a@x.com.7d.1'' 1800], userTokens_seq := 2\<rparr>)"
  by (simp add: login_def saveRefreshToken_def refreshTokens_def generateTokens_def store_defs
        example_defs numeral_eq_Suc Let_def)

section \<open>The expiry written to a session row\<close>

text \<open>
  The expiry of the row that a login creates and that a refresh rewrites is the clock
  plus the constant seven days, whatever the configuration says.
\<close>

lemma login_session_expiry:
  assumes "login e d mail pw ua ip now = (Inr res, d')"
  shows "\<exists>row. userTokens d' = userTokens d @ [row] \<and>
           t_refreshToken row = refreshToken (snd (data res)) \<and>
           t_expiresAt row = now + 7 * 24 * 60 * 60 * 1000"
  using assms
  by (auto simp: login_def saveRefreshToken_def prisma_userTokens_create_def Let_def
           split: option.splits if_splits sum.splits prod.splits)

text \<open>
  C7 at a configuration with \<open>JWT_REFRESH_EXPIRES_IN = 1d\<close>. Alice logs in at time 1000
  and refreshes at time 3000. The refresh tokens are signed with the configured lifetime
  \<open>1d\<close>, but the session row expires at \<open>1000 + 604800000\<close> and then at
  \<open>3000 + 604800000\<close>: seven days, not the configured one day.
\<close>

theorem session_expiry_ignores_configured_ttl:
  "config_or (example_env [(''JWT_REFRESH_SECRET'', ''rs''), (''JWT_REFRESH_EXPIRES_IN'', ''1d'')])
     ''JWT_REFRESH_EXPIRES_IN'' ''7d'' = ''1d'' \<and>
   map (\<lambda>r. (t_refreshToken r, t_expiresAt r))
     (userTokens (snd (login
        (example_env [(''JWT_REFRESH_SECRET'', ''rs''), (''JWT_REFRESH_EXPIRES_IN'', ''1d'')])
        example_db0 ''a@x.com'' ''Abc123'' ''ua'' ''ip'' 1000))) =
     [(''rs.a@x.com.1d.1'', 604801000)] \<and>
   map (\<lambda>r. (t_refreshToken r, t_expiresAt r))
     (userTokens (snd (refreshTokens
        (example_env [(''JWT_REFRESH_SECRET'', ''rs''), (''JWT_REFRESH_EXPIRES_IN'', ''1d'')])
        (snd (login
           (example_env [(''JWT_REFRESH_SECRET'', ''rs''), (''JWT_REFRESH_EXPIRES_IN'', ''1d'')])
           example_db0 ''a@x.com'' ''Abc123'' ''ua'' ''ip'' 1000))
        ''rs.a@x.com.1d.1'' 3000))) =
     [(''rs.a@x.com.1d.111'', 604803000)]"
  by (simp add: login_def saveRefreshToken_def refreshTokens_def generateTokens_def store_defs
        example_defs numeral_eq_Suc Let_def)

section \<open>The schema's guarantees are kept\<close>

text \<open>
  Every operation takes a store that satisfies \<open>db_wf\<close> to one that does, whatever it
  returns or throws: the hypotheses on unique keys used above hold in every state the
  service can reach from a well-formed one.
\<close>

lemma db_wf_example: "db_wf example_db"
  by (simp add: db_wf_def example_defs)

lemma map_key_update:
  "(\<And>x. f (g x) = f x) \<Longrightarrow> map f (map (\<lambda>x. if P x then g x else x) xs) = map f xs"
  by (induction xs) auto

lemma wf_user_create:
  "db_wf d \<Longrightarrow> db_wf (snd (prisma_user_create d em un pw locked now))"
  by (auto simp: db_wf_def prisma_user_create_def Let_def)

lemma wf_user_update:
  assumes "db_wf d"
  shows "db_wf (snd (prisma_user_update d i pw now))"
proof (cases "i \<in> set (map u_id (users d))")
  case False
  with assms show ?thesis by (simp add: prisma_user_update_def)
next
  case True
  define d' where "d' = snd (prisma_user_update d i pw now)"
  let ?us = "map (\<lambda>u. if u_id u = i then u\<lparr>u_password := pw, u_updatedAt := now\<rparr> else u) (users d)"
  have k: "map u_id ?us = map u_id (users d)" "map u_email ?us = map u_email (users d)"
    "map u_username ?us = map u_username (users d)"
    by (rule map_key_update, simp)+
  have p: "users d' = ?us" "userTokens d' = userTokens d" "users_seq d' = users_seq d"
    "userTokens_seq d' = userTokens_seq d"
    using True by (simp_all add: d'_def prisma_user_update_def)
  have "db_wf d'"
    unfolding db_wf_def p k using assms [unfolded db_wf_def] .
  then show ?thesis by (simp only: d'_def)
qed

lemma wf_userTokens_create:
  "db_wf d \<Longrightarrow> db_wf (snd (prisma_userTokens_create d uid tok ua ip dev exp now))"
  by (auto simp: db_wf_def prisma_userTokens_create_def Let_def)

lemma wf_userTokens_filter:
  assumes "db_wf d"
  shows "db_wf (d\<lparr>userTokens := filter P (userTokens d)\<rparr>)"
proof -
  have "set (map f (filter P (userTokens d))) \<subseteq> set (map f (userTokens d))" for f :: "UserTokens \<Rightarrow> int"
    by auto
  with assms show ?thesis
    unfolding db_wf_def by (auto simp: distinct_map_filter)
qed

lemma wf_userTokens_deleteMany:
  "db_wf d \<Longrightarrow> db_wf (prisma_userTokens_deleteMany d matches)"
  unfolding prisma_userTokens_deleteMany_def by (rule wf_userTokens_filter)

lemma wf_userTokens_delete:
  "db_wf d \<Longrightarrow> db_wf (snd (prisma_userTokens_delete d tok))"
  unfolding prisma_userTokens_delete_def by (simp add: wf_userTokens_filter)


lemma distinct_tokens_update:
  assumes "distinct (map t_id rows)" and "distinct (map t_refreshToken rows)"
    and "\<forall>r \<in> set rows. t_refreshToken r = tok \<longrightarrow> t_id r = i"
  shows "distinct (map (\<lambda>r. if t_id r = i then tok else t_refreshToken r) rows)"
  using assms
proof (induction rows)
  case Nil
  show ?case by simp
next
  case (Cons r rs)
  let ?f = "\<lambda>r. if t_id r = i then tok else t_refreshToken r"
  from Cons.prems have ids: "\<forall>r' \<in> set rs. t_id r' \<noteq> t_id r"
    and toks: "\<forall>r' \<in> set rs. t_refreshToken r' \<noteq> t_refreshToken r"
    and only: "t_refreshToken r = tok \<longrightarrow> t_id r = i"
      "\<forall>r' \<in> set rs. t_refreshToken r' = tok \<longrightarrow> t_id r' = i"
    by (simp_all add: image_iff) metis+
  from Cons have IH: "distinct (map ?f rs)" by simp
  have "?f r' \<noteq> ?f r" if "r' \<in> set rs" for r'
    using that ids toks only by (cases "t_id r = i"; cases "t_id r' = i") auto
  then have "?f r \<notin> set (map ?f rs)"
    by (simp only: set_map image_iff) metis
  with IH show ?case by simp
qed

lemma map_token_update:
  "map t_refreshToken
     (map (\<lambda>r. if t_id r = i
               then r\<lparr>t_refreshToken := tok, t_lastUsedAt := used,
                       t_expiresAt := exp, t_updatedAt := now\<rparr>
               else r) rows) =
   map (\<lambda>r. if t_id r = i then tok else t_refreshToken r) rows"
  by (induction rows) auto

lemma wf_userTokens_update:
  assumes "db_wf d"
  shows "db_wf (snd (prisma_userTokens_update d i tok used exp now))"
proof (cases "prisma_userTokens_update d i tok used exp now")
  case (Pair r d')
  show ?thesis
  proof (cases r)
    case (Inl err)
    with Pair have "d' = d"
      by (auto simp: prisma_userTokens_update_def split: if_splits)
    with Pair assms show ?thesis by simp
  next
    case (Inr u)
    with Pair have up: "prisma_userTokens_update d i tok used exp now = (Inr (), d')" by simp
    let ?rows = "map (\<lambda>r. if t_id r = i
                     then r\<lparr>t_refreshToken := tok, t_lastUsedAt := used,
                             t_expiresAt := exp, t_updatedAt := now\<rparr>
                     else r) (userTokens d)"
    from userTokens_update_Inr(3) [OF up]
    have p: "users d' = users d" "users_seq d' = users_seq d"
      "userTokens_seq d' = userTokens_seq d" "userTokens d' = ?rows"
      by simp_all
    have k: "map t_id ?rows = map t_id (userTokens d)"
      "map t_userId ?rows = map t_userId (userTokens d)"
      by (rule map_key_update, simp)+
    have toks: "map t_refreshToken ?rows =
                  map (\<lambda>r. if t_id r = i then tok else t_refreshToken r) (userTokens d)"
      by (rule map_token_update)
    from assms userTokens_update_Inr(2) [OF up]
    have "distinct (map (\<lambda>r. if t_id r = i then tok else t_refreshToken r) (userTokens d))"
      unfolding db_wf_def by (intro distinct_tokens_update) auto
    then have "db_wf d'"
      unfolding db_wf_def p k toks using assms [unfolded db_wf_def] by blast
    with Pair show ?thesis by (simp only: snd_conv)
  qed
qed


lemma register_preserves_wf:
  assumes "db_wf d"
  shows "db_wf (snd (register e d mail un pw salt now))"
proof (cases "prisma_user_findUnique_email d mail")
  case (Some u)
  with assms show ?thesis by (simp add: register_def register_try_def)
next
  case None
  obtain r d1 where c: "prisma_user_create d mail un (argon2_hash e salt pw) False now = (r, d1)"
    by (cases "prisma_user_create d mail un (argon2_hash e salt pw) False now")
  with wf_user_create [OF assms, of mail un "argon2_hash e salt pw" False now]
  have "db_wf d1" by simp
  with None c show ?thesis
    by (cases r) (simp_all add: register_def register_try_def)
qed

lemma login_preserves_wf:
  assumes "db_wf d"
  shows "db_wf (snd (login e d mail pw ua ip now))"
proof (cases "prisma_user_findUnique_email d mail")
  case None
  with assms show ?thesis by (simp add: login_def)
next
  case (Some user)
  let ?tok = "refreshToken (generateTokens e (u_id user) (u_username user) (u_email user) now)"
  obtain r d1 where c: "saveRefreshToken d (u_id user) ?tok ua ip now = (r, d1)"
    by (cases "saveRefreshToken d (u_id user) ?tok ua ip now")
  with wf_userTokens_create [OF assms, of "u_id user" ?tok ua ip ua "now + 7 * 24 * 60 * 60 * 1000" now]
  have "db_wf d1" by (simp add: saveRefreshToken_def)
  with assms Some c show ?thesis
    by (cases r) (simp_all add: login_def Let_def)
qed

lemma logout_preserves_wf:
  "db_wf d \<Longrightarrow> db_wf (snd (logout d uid tok))"
  by (simp add: logout_def wf_userTokens_deleteMany)

lemma refreshTokens_preserves_wf:
  assumes "db_wf d"
  shows "db_wf (snd (refreshTokens e d tok now))"
proof (cases "prisma_userTokens_findUnique d tok")
  case None
  with assms show ?thesis by (simp add: refreshTokens_def)
next
  case (Some a)
  obtain row u where a: "a = (row, u)" by (cases a)
  show ?thesis
  proof (cases "now > t_expiresAt row")
    case True
    obtain r d1 where c: "prisma_userTokens_delete d tok = (r, d1)"
      by (cases "prisma_userTokens_delete d tok")
    with wf_userTokens_delete [OF assms, of tok] have "db_wf d1" by simp
    with Some a True c show ?thesis
      by (cases r) (simp_all add: refreshTokens_def)
  next
    case False
    show ?thesis
    proof (cases "verifyAsync e tok (config_or e ''JWT_REFRESH_SECRET'' ''your-refresh-secret'') now")
      case None
      with assms Some a False show ?thesis by (simp add: refreshTokens_def)
    next
      case v: (Some p)
      show ?thesis
      proof (cases u)
        case None
        with assms Some a False v show ?thesis by (simp add: refreshTokens_def)
      next
        case u: (Some user)
        let ?new = "refreshToken (generateTokens e (u_id user) (u_username user) (u_email user) now)"
        obtain r d1 where c: "prisma_userTokens_update d (t_id row) ?new now
            (now + 7 * 24 * 60 * 60 * 1000) now = (r, d1)"
          by (cases "prisma_userTokens_update d (t_id row) ?new now
            (now + 7 * 24 * 60 * 60 * 1000) now")
        with wf_userTokens_update [OF assms, of "t_id row" ?new now "now + 7 * 24 * 60 * 60 * 1000" now]
        have "db_wf d1" by simp
        with Some a False v u c show ?thesis
          by (cases r) (simp_all add: refreshTokens_def Let_def)
      qed
    qed
  qed
qed

lemma changePassword_preserves_wf:
  assumes "db_wf d"
  shows "db_wf (snd (changePassword e d uid cur new conf salt now))"
proof (cases "new \<noteq> conf \<or> cur = new")
  case True
  with assms show ?thesis by (auto simp: changePassword_def)
next
  case guards: False
  show ?thesis
  proof (cases "prisma_user_findUnique_id d uid")
    case None
    with assms guards show ?thesis by (simp add: changePassword_def)
  next
    case (Some user)
    show ?thesis
    proof (cases "argon2_verify e (u_password user) cur")
      case False
      with assms guards Some show ?thesis by (simp add: changePassword_def)
    next
      case True
      obtain r d1 where c: "prisma_user_update d uid (argon2_hash e salt new) now = (r, d1)"
        by (cases "prisma_user_update d uid (argon2_hash e salt new) now")
      with wf_user_update [OF assms, of uid "argon2_hash e salt new" now]
      have "db_wf d1" by simp
      then have "db_wf (prisma_userTokens_deleteMany d1 (\<lambda>r. t_userId r = uid))"
        by (rule wf_userTokens_deleteMany)
      with \<open>db_wf d1\<close> guards Some True c show ?thesis
        by (cases r) (simp_all add: changePassword_def Let_def)
    qed
  qed
qed

lemma apply_call_preserves_wf:
  assumes "db_wf d"
  shows "db_wf (apply_call e d c now)"
proof (cases c)
  case (Register mail un pw salt)
  with assms show ?thesis by (simp add: register_preserves_wf)
next
  case (Login mail pw ua ip)
  with assms show ?thesis by (simp add: login_preserves_wf)
next
  case (Logout uid tok)
  with assms show ?thesis by (simp add: logout_preserves_wf)
next
  case (RefreshTokens tok)
  with assms show ?thesis by (simp add: refreshTokens_preserves_wf)
next
  case (ChangePassword uid cur new conf salt)
  with assms show ?thesis by (simp add: changePassword_preserves_wf)
qed

text \<open>
  So every store that a run of the service reaches from a well-formed one has unique
  row ids and unique token values, which is what the theorems on refresh assume.
\<close>

lemma run_preserves_wf: "db_wf d \<Longrightarrow> db_wf (run e d cs)"
proof (induction cs arbitrary: d)
  case Nil
  then show ?case by simp
next
  case (Cons a cs)
  obtain c now where "a = (c, now)" by (cases a)
  with Cons show ?case by (simp add: apply_call_preserves_wf)
qed

lemma run_unique_keys:
  assumes "db_wf d"
  shows "distinct (map t_id (userTokens (run e d cs)))"
    and "distinct (map t_refreshToken (userTokens (run e d cs)))"
    and "distinct (map u_id (users (run e d cs)))"
    and "distinct (map u_email (users (run e d cs)))"
  using run_preserves_wf [OF assms, of e cs] by (simp_all add: db_wf_def)

end
